theory Spec2Isabelle
  imports Main "HOL-Library.AList"
begin

section \<open>Configuration: the base URL of the remote service\<close>

text \<open>
  The environment variable \<^verbatim>\<open>VIBEKIT_API_URL\<close> is \<open>None\<close> when unset.
  JavaScript's \<^verbatim>\<open>process.env.X || d\<close> yields \<open>d\<close> when the variable is unset
  and also when it is the empty string (the only falsy string).
\<close>

definition env_or :: "string option \<Rightarrow> string \<Rightarrow> string" where
  "env_or v d = (case v of None \<Rightarrow> d | Some s \<Rightarrow> if s = [] then d else s)"

text \<open>\<^verbatim>\<open>auth.ts: getApiBaseUrl()\<close>, used by the refresh operation, the request
  client and the revoke call.\<close>

definition getApiBaseUrl :: "string option \<Rightarrow> string" where
  "getApiBaseUrl v = env_or v ''https://vibecoderskit.com''"

text \<open>\<^verbatim>\<open>login.ts: const API_BASE_URL\<close>, used by the device-authorization flow.\<close>

definition API_BASE_URL :: "string option \<Rightarrow> string" where
  "API_BASE_URL v = env_or v ''https://vibecoderskit.ai''"

section \<open>JSON: values, \<^verbatim>\<open>JSON.stringify\<close> and \<^verbatim>\<open>JSON.parse\<close>\<close>

text \<open>
  The token file is a JSON text, so the model carries what the platform does with it.
  A string is an Isabelle \<open>string\<close>, read as the UTF-8 bytes of the JavaScript string (the
  bytes \<^verbatim>\<open>writeFileSync\<close> puts on disk and \<^verbatim>\<open>readFileSync(_, "utf-8")\<close> reads back), so
  the strings of the model are the well-formed ones: those without a lone surrogate.
  An object is the list of its properties in insertion order (JavaScript lists
  integer-like keys first; the records of this program have none). A number keeps the text of
  its literal: no claim computes with a number read from a file.
\<close>

datatype json =
    JNull
  | JBool bool
  | JNum string
  | JStr string
  | JArr "json list"
  | JObj "(string \<times> json) list"

text \<open>
  \<^verbatim>\<open>JSON.stringify(value, null, gap)\<close> for \<open>gap\<close> spaces of indentation (0: the compact
  form of \<^verbatim>\<open>JSON.stringify(value)\<close>). In a string, the quote, the backslash and the control
  characters below 0x20 are escaped; every other byte is written as it is.
\<close>

definition hex_digit :: "nat \<Rightarrow> char" where
  "hex_digit n = ''0123456789abcdef'' ! n"

definition quote_char :: "char \<Rightarrow> string" where
  "quote_char c =
     (if c = CHR 0x22 then [CHR 0x5C, CHR 0x22]
      else if c = CHR 0x5C then [CHR 0x5C, CHR 0x5C]
      else if c = CHR 0x08 then [CHR 0x5C, CHR ''b'']
      else if c = CHR 0x0C then [CHR 0x5C, CHR ''f'']
      else if c = CHR 0x0A then [CHR 0x5C, CHR ''n'']
      else if c = CHR 0x0D then [CHR 0x5C, CHR ''r'']
      else if c = CHR 0x09 then [CHR 0x5C, CHR ''t'']
      else if (of_char c :: nat) < 0x20
        then [CHR 0x5C, CHR ''u'', CHR ''0'', CHR ''0'',
              hex_digit (of_char c div 16), hex_digit (of_char c mod 16)]
      else [c])"

definition escape :: "string \<Rightarrow> string" where
  "escape s = concat (map quote_char s)"

definition quote :: "string \<Rightarrow> string" where
  "quote s = CHR 0x22 # escape s @ [CHR 0x22]"

definition newline_indent :: "nat \<Rightarrow> nat \<Rightarrow> string" where
  "newline_indent gap depth = (if gap = 0 then [] else CHR 0x0A # replicate (gap * depth) CHR '' '')"

fun join :: "string \<Rightarrow> string list \<Rightarrow> string" where
  "join sep [] = []"
| "join sep [x] = x"
| "join sep (x # y # ys) = x @ sep @ join sep (y # ys)"

fun JSON_stringify :: "nat \<Rightarrow> nat \<Rightarrow> json \<Rightarrow> string" where
  "JSON_stringify gap depth JNull = ''null''"
| "JSON_stringify gap depth (JBool b) = (if b then ''true'' else ''false'')"
| "JSON_stringify gap depth (JNum lexeme) = lexeme"
| "JSON_stringify gap depth (JStr s) = quote s"
| "JSON_stringify gap depth (JArr xs) =
     (if xs = [] then ''[]''
      else ''['' @ newline_indent gap (Suc depth)
           @ join (CHR '','' # newline_indent gap (Suc depth))
                  (map (JSON_stringify gap (Suc depth)) xs)
           @ newline_indent gap depth @ '']'')"
| "JSON_stringify gap depth (JObj kvs) =
     (if kvs = [] then ''{}''
      else ''{'' @ newline_indent gap (Suc depth)
           @ join (CHR '','' # newline_indent gap (Suc depth))
                  (map (\<lambda>kv. quote (fst kv) @ '':'' @ (if gap = 0 then [] else '' '')
                              @ JSON_stringify gap (Suc depth) (snd kv)) kvs)
           @ newline_indent gap depth @ ''}'')"

text \<open>
  \<^verbatim>\<open>JSON.parse(text)\<close>: \<open>None\<close> stands for the SyntaxError it throws. A \<^verbatim>\<open>\u\<close> escape
  yields the UTF-8 bytes of its code point, a surrogate pair those of the pair's code
  point, and a surrogate without its partner those of U+FFFD, which is what the string
  becomes once written as UTF-8.
\<close>

definition hex_val :: "char \<Rightarrow> nat option" where
  "hex_val c =
     (let n = (of_char c :: nat) in
      if 0x30 \<le> n \<and> n \<le> 0x39 then Some (n - 0x30)
      else if 0x61 \<le> n \<and> n \<le> 0x66 then Some (n - 0x61 + 10)
      else if 0x41 \<le> n \<and> n \<le> 0x46 then Some (n - 0x41 + 10)
      else None)"

definition hex4 :: "char \<Rightarrow> char \<Rightarrow> char \<Rightarrow> char \<Rightarrow> nat option" where
  "hex4 a b c d =
     (case (hex_val a, hex_val b, hex_val c, hex_val d) of
        (Some w, Some x, Some y, Some z) \<Rightarrow> Some (((w * 16 + x) * 16 + y) * 16 + z)
      | _ \<Rightarrow> None)"

definition utf8 :: "nat \<Rightarrow> string" where
  "utf8 n =
     (if n < 0x80 then [char_of n]
      else if n < 0x800 then [char_of (0xC0 + n div 64), char_of (0x80 + n mod 64)]
      else if n < 0x10000 then
        [char_of (0xE0 + n div 4096), char_of (0x80 + n div 64 mod 64), char_of (0x80 + n mod 64)]
      else
        [char_of (0xF0 + n div 262144), char_of (0x80 + n div 4096 mod 64),
         char_of (0x80 + n div 64 mod 64), char_of (0x80 + n mod 64)])"

definition is_high_surrogate :: "nat \<Rightarrow> bool" where
  "is_high_surrogate n = (0xD800 \<le> n \<and> n < 0xDC00)"

definition is_low_surrogate :: "nat \<Rightarrow> bool" where
  "is_low_surrogate n = (0xDC00 \<le> n \<and> n < 0xE000)"

definition unescape :: "char \<Rightarrow> char option" where
  "unescape e =
     (if e = CHR 0x22 then Some (CHR 0x22)
      else if e = CHR 0x5C then Some (CHR 0x5C)
      else if e = CHR ''/'' then Some (CHR ''/'')
      else if e = CHR ''b'' then Some (CHR 0x08)
      else if e = CHR ''f'' then Some (CHR 0x0C)
      else if e = CHR ''n'' then Some (CHR 0x0A)
      else if e = CHR ''r'' then Some (CHR 0x0D)
      else if e = CHR ''t'' then Some (CHR 0x09)
      else None)"

definition low_escape :: "string \<Rightarrow> nat option" where
  "low_escape s =
     (case s of
        bs # u # a # b # c # d # _ \<Rightarrow>
          if bs = CHR 0x5C \<and> u = CHR ''u'' then
            (case hex4 a b c d of
               Some m \<Rightarrow> if is_low_surrogate m then Some m else None
             | None \<Rightarrow> None)
          else None
      | _ \<Rightarrow> None)"

definition prepend :: "string \<Rightarrow> (string \<times> string) option \<Rightarrow> (string \<times> string) option" where
  "prepend xs r = (case r of None \<Rightarrow> None | Some (s, rest) \<Rightarrow> Some (xs @ s, rest))"

fun parse_chars :: "string \<Rightarrow> (string \<times> string) option" where
  "parse_chars [] = None"
| "parse_chars (c # cs) =
     (if c = CHR 0x22 then Some ([], cs)
      else if c = CHR 0x5C then
        (case cs of
           [] \<Rightarrow> None
         | e # r \<Rightarrow>
             if e = CHR ''u'' then
               (case r of
                  h1 # h2 # h3 # h4 # r' \<Rightarrow>
                    (case hex4 h1 h2 h3 h4 of
                       None \<Rightarrow> None
                     | Some n \<Rightarrow>
                         if is_high_surrogate n then
                           (case low_escape r' of
                              Some m \<Rightarrow>
                                (case r' of
                                   _ # _ # _ # _ # _ # _ # r'' \<Rightarrow>
                                     prepend
                                       (utf8 (0x10000 + (n - 0xD800) * 1024 + (m - 0xDC00)))
                                       (parse_chars r'')
                                 | _ \<Rightarrow> None)
                            | None \<Rightarrow> prepend (utf8 0xFFFD) (parse_chars r'))
                         else if is_low_surrogate n then prepend (utf8 0xFFFD) (parse_chars r')
                         else prepend (utf8 n) (parse_chars r'))
                | _ \<Rightarrow> None)
             else
               (case unescape e of
                  None \<Rightarrow> None
                | Some d \<Rightarrow> prepend [d] (parse_chars r)))
      else if (of_char c :: nat) < 0x20 then None
      else prepend [c] (parse_chars cs))"

text \<open>White space, numbers and the three literals.\<close>

definition is_ws :: "char \<Rightarrow> bool" where
  "is_ws c = (c = CHR '' '' \<or> c = CHR 0x09 \<or> c = CHR 0x0A \<or> c = CHR 0x0D)"

definition skip_ws :: "string \<Rightarrow> string" where
  "skip_ws s = dropWhile is_ws s"

definition is_digit :: "char \<Rightarrow> bool" where
  "is_digit c = (0x30 \<le> (of_char c :: nat) \<and> (of_char c :: nat) \<le> 0x39)"

definition parse_sign :: "string \<Rightarrow> string \<times> string" where
  "parse_sign s = (case s of [] \<Rightarrow> ([], s) | c # r \<Rightarrow> if c = CHR ''-'' then ([c], r) else ([], s))"

definition parse_int_part :: "string \<Rightarrow> (string \<times> string) option" where
  "parse_int_part s =
     (let ds = takeWhile is_digit s in
      if ds = [] \<or> (hd ds = CHR ''0'' \<and> 1 < length ds) then None
      else Some (ds, dropWhile is_digit s))"

definition parse_frac :: "string \<Rightarrow> (string \<times> string) option" where
  "parse_frac s =
     (case s of
        [] \<Rightarrow> Some ([], s)
      | c # r \<Rightarrow>
          if c = CHR ''.'' then
            (let ds = takeWhile is_digit r in
             if ds = [] then None else Some (c # ds, dropWhile is_digit r))
          else Some ([], s))"

definition parse_exp :: "string \<Rightarrow> (string \<times> string) option" where
  "parse_exp s =
     (case s of
        [] \<Rightarrow> Some ([], s)
      | c # r \<Rightarrow>
          if c = CHR ''e'' \<or> c = CHR ''E'' then
            (let (sg, r') = (case r of
                               [] \<Rightarrow> ([], r)
                             | x # t \<Rightarrow> if x = CHR ''+'' \<or> x = CHR ''-'' then ([x], t) else ([], r));
                 ds = takeWhile is_digit r'
             in if ds = [] then None else Some (c # sg @ ds, dropWhile is_digit r'))
          else Some ([], s))"

definition parse_number :: "string \<Rightarrow> (string \<times> string) option" where
  "parse_number s =
     (let (sg, s1) = parse_sign s in
      case parse_int_part s1 of
        None \<Rightarrow> None
      | Some (ds, s2) \<Rightarrow>
          (case parse_frac s2 of
             None \<Rightarrow> None
           | Some (fr, s3) \<Rightarrow>
               (case parse_exp s3 of
                  None \<Rightarrow> None
                | Some (ex, s4) \<Rightarrow> Some (sg @ ds @ fr @ ex, s4))))"

definition parse_literal :: "string \<Rightarrow> (json \<times> string) option" where
  "parse_literal s =
     (if take 4 s = ''true'' then Some (JBool True, drop 4 s)
      else if take 5 s = ''false'' then Some (JBool False, drop 5 s)
      else if take 4 s = ''null'' then Some (JNull, drop 4 s)
      else (case parse_number s of
              None \<Rightarrow> None
            | Some (lexeme, rest) \<Rightarrow> Some (JNum lexeme, rest)))"

text \<open>
  Values, the members of an object and the elements of an array, by recursive descent.
  The first argument bounds the depth of the calls and makes the functions total;
  \<open>JSON_parse\<close> starts with one more than the length of the text, which is enough for
  every text (\<open>JSON_parse_any_bound\<close> below). A property set twice keeps its place and
  takes the later value.
\<close>

fun parse_value :: "nat \<Rightarrow> string \<Rightarrow> (json \<times> string) option"
  and parse_members :: "nat \<Rightarrow> (string \<times> json) list \<Rightarrow> string \<Rightarrow> (json \<times> string) option"
  and parse_elements :: "nat \<Rightarrow> json list \<Rightarrow> string \<Rightarrow> (json \<times> string) option"
where
  "parse_value 0 s = None"
| "parse_value (Suc n) s =
     (case s of
        [] \<Rightarrow> None
      | c # cs \<Rightarrow>
          if c = CHR 0x22 then
            (case parse_chars cs of None \<Rightarrow> None | Some (str, rest) \<Rightarrow> Some (JStr str, rest))
          else if c = CHR ''{'' then
            (case skip_ws cs of
               [] \<Rightarrow> None
             | d # r \<Rightarrow> if d = CHR ''}'' then Some (JObj [], r) else parse_members n [] (d # r))
          else if c = CHR ''['' then
            (case skip_ws cs of
               [] \<Rightarrow> None
             | d # r \<Rightarrow> if d = CHR '']'' then Some (JArr [], r) else parse_elements n [] (d # r))
          else parse_literal s)"
| "parse_members 0 acc s = None"
| "parse_members (Suc n) acc s =
     (case s of
        [] \<Rightarrow> None
      | q # cs \<Rightarrow>
          if q \<noteq> CHR 0x22 then None
          else
            (case parse_chars cs of
               None \<Rightarrow> None
             | Some (k, r) \<Rightarrow>
                 (case skip_ws r of
                    [] \<Rightarrow> None
                  | colon # r1 \<Rightarrow>
                      if colon \<noteq> CHR '':'' then None
                      else
                        (case parse_value n (skip_ws r1) of
                           None \<Rightarrow> None
                         | Some (v, r2) \<Rightarrow>
                             (case skip_ws r2 of
                                [] \<Rightarrow> None
                              | d # r3 \<Rightarrow>
                                  if d = CHR '','' then
                                    parse_members n (AList.update k v acc) (skip_ws r3)
                                  else if d = CHR ''}'' then
                                    Some (JObj (AList.update k v acc), r3)
                                  else None)))))"
| "parse_elements 0 acc s = None"
| "parse_elements (Suc n) acc s =
     (case parse_value n s of
        None \<Rightarrow> None
      | Some (v, r) \<Rightarrow>
          (case skip_ws r of
             [] \<Rightarrow> None
           | d # r1 \<Rightarrow>
               if d = CHR '','' then parse_elements n (acc @ [v]) (skip_ws r1)
               else if d = CHR '']'' then Some (JArr (acc @ [v]), r1)
               else None))"

definition JSON_parse :: "string \<Rightarrow> json option" where
  "JSON_parse text =
     (case parse_value (Suc (length text)) (skip_ws text) of
        None \<Rightarrow> None
      | Some (v, rest) \<Rightarrow> if skip_ws rest = [] then Some v else None)"

section \<open>The credential record\<close>

text \<open>\<^verbatim>\<open>auth.ts: interface TokenData\<close>. The field \<^verbatim>\<open>id\<close> is named \<open>user_id\<close>.\<close>

record user =
  user_id :: string
  email :: string
  name :: string

record TokenData =
  access_token :: string
  refresh_token :: string
  expires_at :: string
  user :: user

text \<open>The JavaScript object of a record, with the keys in the order of the interface.\<close>

definition user_json :: "user \<Rightarrow> json" where
  "user_json u =
     JObj [(''id'', JStr (user_id u)), (''email'', JStr (email u)), (''name'', JStr (name u))]"

definition TokenData_json :: "TokenData \<Rightarrow> json" where
  "TokenData_json t =
     JObj [(''access_token'', JStr (access_token t)),
           (''refresh_token'', JStr (refresh_token t)),
           (''expires_at'', JStr (expires_at t)),
           (''user'', user_json (user t))]"

text \<open>
  The type assertion that TypeScript leaves unchecked: a parsed value seen as a
  \<^verbatim>\<open>TokenData\<close>. It succeeds on exactly the objects of the persisted shape, as this
  program writes them: the four fields in the order of the interface and no other, three
  strings and a user object of three strings.
\<close>

definition str_field :: "(string \<times> json) list \<Rightarrow> string \<Rightarrow> string option" where
  "str_field kvs k = (case map_of kvs k of Some (JStr s) \<Rightarrow> Some s | _ \<Rightarrow> None)"

definition read_user :: "json \<Rightarrow> user option" where
  "read_user j =
     (case j of
        JObj kvs \<Rightarrow>
          (case (str_field kvs ''id'', str_field kvs ''email'', str_field kvs ''name'') of
             (Some i, Some m, Some n) \<Rightarrow> Some \<lparr>user_id = i, email = m, name = n\<rparr>
           | _ \<Rightarrow> None)
      | _ \<Rightarrow> None)"

definition read_TokenData :: "json \<Rightarrow> TokenData option" where
  "read_TokenData j =
     (case j of
        JObj kvs \<Rightarrow>
          (case (str_field kvs ''access_token'', str_field kvs ''refresh_token'',
                 str_field kvs ''expires_at'', map_of kvs ''user'') of
             (Some a, Some r, Some x, Some uj) \<Rightarrow>
               (case read_user uj of
                  Some u \<Rightarrow>
                    Some \<lparr>access_token = a, refresh_token = r, expires_at = x, user = u\<rparr>
                | None \<Rightarrow> None)
           | _ \<Rightarrow> None)
      | _ \<Rightarrow> None)"

definition as_TokenData :: "json \<Rightarrow> TokenData option" where
  "as_TokenData j =
     (case read_TokenData j of
        None \<Rightarrow> None
      | Some t \<Rightarrow> if TokenData_json t = j then Some t else None)"

section \<open>The world: file system, network and clock\<close>

text \<open>
  A \<^verbatim>\<open>fetch\<close> request: the URL and the fields of the init object the code sets.
  A headers object is a finite map from header names to values.
\<close>

record request =
  url :: string
  http_method :: "string option"
  headers :: "string \<rightharpoonup> string"
  body :: "string option"

text \<open>The places of the source that suspend or act on the outside, and the log of
  what they did, oldest first.\<close>

datatype site = RefreshSite | PrimarySite | RetrySite | DeviceCodeSite | DeviceTokenSite

datatype event = Fetch site request | Sleep int | Stdout string

text \<open>
  The mutable state. The file system is a store that does not fail: the directory
  \<^verbatim>\<open>~/.vibekit\<close> exists or not, and \<^verbatim>\<open>token.json\<close> is missing (\<open>None\<close>) or holds a text.
\<close>

record world =
  config_dir :: bool
  token_file :: "string option"
  history :: "event list"

text \<open>What each \<^verbatim>\<open>fetch\<close> site can get back: the promise rejects, or a response with a
  status and a body, the body read at the type the site declares for it
  (\<open>None\<close>: \<^verbatim>\<open>response.json()\<close> rejects).\<close>

record refresh_data =
  new_access_token :: string
  expires_in :: int

datatype refresh_reply = RefreshRejected | RefreshResponse nat "refresh_data option"

datatype api_reply = ApiRejected | ApiResponse nat "json option"

text \<open>\<^verbatim>\<open>login.ts: interface DeviceCodeResponse, TokenResponse, ErrorResponse\<close>.\<close>

record DeviceCodeResponse =
  device_code :: string
  user_code :: string
  verification_uri :: string
  code_expires_in :: int
  code_interval :: int

record TokenResponse =
  resp_access_token :: string
  resp_refresh_token :: string
  resp_token_type :: string
  resp_expires_in :: int
  resp_user :: user

record ErrorResponse =
  error :: "string option"
  error_description :: "string option"

datatype device_code_body = CodeNotJson | CodeError "string option" | CodeGranted DeviceCodeResponse

datatype device_code_reply = DeviceCodeRejected | DeviceCodeReply nat device_code_body

datatype token_body = TokenNotJson | Granted TokenResponse | Refused ErrorResponse

datatype token_reply = TokenRejected | TokenReply token_body

text \<open>
  The environment of a run. The remote service and the clock are functions of the log so
  far, so that any server behaviour and any passage of time is an instance.
  \<open>Date_parse\<close> is \<^verbatim>\<open>new Date(s).getTime()\<close> (\<open>None\<close> for \<^verbatim>\<open>NaN\<close>) and \<open>Date_format\<close>
  the text \<^verbatim>\<open>toISOString\<close> gives for a time value in range.
\<close>

record env =
  VIBEKIT_API_URL :: "string option"
  Date_now :: "event list \<Rightarrow> int"
  Date_parse :: "string \<Rightarrow> int option"
  Date_format :: "int \<Rightarrow> string"
  refresh_endpoint :: "event list \<Rightarrow> request \<Rightarrow> refresh_reply"
  resource_endpoint :: "event list \<Rightarrow> request \<Rightarrow> api_reply"
  device_code_endpoint :: "event list \<Rightarrow> request \<Rightarrow> device_code_reply"
  device_token_endpoint :: "event list \<Rightarrow> request \<Rightarrow> token_reply"

text \<open>
  What a function can throw: \<open>Error m\<close> is \<^verbatim>\<open>new Error(m)\<close> for a string \<open>m\<close>, and
  \<open>ErrorOf v\<close> is \<^verbatim>\<open>new Error(v)\<close> for a value that is not a string (its message is the
  string JavaScript converts \<open>v\<close> to). \<open>FetchFailed\<close> is the rejection of \<^verbatim>\<open>fetch\<close>,
  \<open>BodyNotJson\<close> that of \<^verbatim>\<open>response.json()\<close>. \<open>NotTyped\<close> marks the runs in which a value
  is not of the type its declaration asserts; what the untyped code does then is outside
  the model.
\<close>

datatype js_error =
    Error string
  | ErrorOf json
  | TypeError
  | RangeError
  | FetchFailed
  | BodyNotJson
  | NotTyped

text \<open>Appending to the log, and \<^verbatim>\<open>response.ok\<close>.\<close>

definition log :: "event \<Rightarrow> world \<Rightarrow> world" where
  "log ev w = w\<lparr>history := history w @ [ev]\<rparr>"

definition ok :: "nat \<Rightarrow> bool" where
  "ok status = (200 \<le> status \<and> status \<le> 299)"

text \<open>\<^verbatim>\<open>new Date(t).toISOString()\<close>: a time value beyond 8.64e15 ms is an invalid date, on
  which \<^verbatim>\<open>toISOString\<close> throws a RangeError.\<close>

definition toISOString :: "env \<Rightarrow> int \<Rightarrow> string option" where
  "toISOString e t = (if \<bar>t\<bar> \<le> 8640000000000000 then Some (Date_format e t) else None)"

definition json_headers :: "string \<rightharpoonup> string" where
  "json_headers = [''Content-Type'' \<mapsto> ''application/json'']"

section \<open>auth.ts: the credential store and the refresh operation\<close>

text \<open>
  \<^verbatim>\<open>loadToken\<close>: \<open>None\<close> is JavaScript's \<^verbatim>\<open>null\<close>, returned for a missing file, by the
  \<^verbatim>\<open>catch\<close> when \<^verbatim>\<open>JSON.parse\<close> throws, and as the value of the text \<^verbatim>\<open>null\<close>. Any other
  parsed value is returned as it is.
\<close>

definition loadToken :: "world \<Rightarrow> json option" where
  "loadToken w =
     (case token_file w of
        None \<Rightarrow> None
      | Some data \<Rightarrow>
          (case JSON_parse data of
             None \<Rightarrow> None
           | Some j \<Rightarrow> if j = JNull then None else Some j))"

definition saveToken :: "TokenData \<Rightarrow> world \<Rightarrow> world" where
  "saveToken tokenData w =
     (let w1 = (if \<not> config_dir w then w\<lparr>config_dir := True\<rparr> else w)
      in w1\<lparr>token_file := Some (JSON_stringify 2 0 (TokenData_json tokenData))\<rparr>)"

definition deleteToken :: "world \<Rightarrow> world" where
  "deleteToken w = w\<lparr>token_file := None\<rparr>"

text \<open>
  \<^verbatim>\<open>refreshAccessToken\<close>: every statement is inside the \<^verbatim>\<open>try\<close>, so a rejected
  \<^verbatim>\<open>fetch\<close>, a body that cannot be read and the RangeError of \<^verbatim>\<open>toISOString\<close> all end in
  \<^verbatim>\<open>null\<close>, before anything is saved.
\<close>

definition refresh_request :: "env \<Rightarrow> TokenData \<Rightarrow> request" where
  "refresh_request e token =
     \<lparr>url = getApiBaseUrl (VIBEKIT_API_URL e) @ ''/api/mcp/auth/refresh'',
      http_method = Some ''POST'',
      headers = json_headers,
      body = Some (JSON_stringify 0 0 (JObj [(''refresh_token'', JStr (refresh_token token))]))\<rparr>"

definition refreshAccessToken :: "env \<Rightarrow> TokenData \<Rightarrow> world \<Rightarrow> TokenData option \<times> world" where
  "refreshAccessToken e token w =
     (let req = refresh_request e token;
          w1 = log (Fetch RefreshSite req) w
      in case refresh_endpoint e (history w) req of
           RefreshRejected \<Rightarrow> (None, w1)
         | RefreshResponse status data \<Rightarrow>
             if \<not> ok status then (None, w1)
             else
               (case data of
                  None \<Rightarrow> (None, w1)
                | Some d \<Rightarrow>
                    (case toISOString e (Date_now e (history w1) + expires_in d * 1000) of
                       None \<Rightarrow> (None, w1)
                     | Some stamp \<Rightarrow>
                         (let updated = token\<lparr>access_token := new_access_token d,
                                               expires_at := stamp\<rparr>
                          in (Some updated, saveToken updated w1)))))"

section \<open>api.ts: the authenticated request client\<close>

text \<open>A number in a template literal: the decimal digits of a natural number.\<close>

function show_nat :: "nat \<Rightarrow> string" where
  "show_nat n =
     (if n < 10 then [hex_digit n] else show_nat (n div 10) @ [hex_digit (n mod 10)])"
  by pat_completeness auto
termination
  by (relation "measure id") auto

text \<open>
  The \<^verbatim>\<open>RequestInit\<close> the caller passes: its method, headers and body. The headers are a
  \<^verbatim>\<open>HeadersInit\<close>: absent, a plain object from names to values, a \<^verbatim>\<open>Headers\<close> instance, or an
  array of name and value pairs.
\<close>

datatype headers_init =
    NoHeaders
  | HeadersObject "string \<rightharpoonup> string"
  | HeadersInstance "(string \<times> string) list"
  | HeaderPairs "(string \<times> string) list"

record options =
  opt_method :: "string option"
  opt_headers :: headers_init
  opt_body :: "string option"

text \<open>
  \<^verbatim>\<open>...options.headers\<close> inside an object literal copies the own enumerable properties
  of the value. \<^verbatim>\<open>undefined\<close> has none. A plain object has its headers. A \<^verbatim>\<open>Headers\<close>
  instance keeps its headers in internal slots and has none. An array has its indices,
  each holding a pair, which \<^verbatim>\<open>fetch\<close> reads as the header value \<^verbatim>\<open>name,value\<close>.
\<close>

fun indexed :: "nat \<Rightarrow> (string \<times> string) list \<Rightarrow> (string \<rightharpoonup> string)" where
  "indexed i [] = Map.empty"
| "indexed i (p # ps) = (indexed (Suc i) ps)(show_nat i \<mapsto> fst p @ '','' @ snd p)"

definition spread :: "headers_init \<Rightarrow> (string \<rightharpoonup> string)" where
  "spread h =
     (case h of
        NoHeaders \<Rightarrow> Map.empty
      | HeadersObject m \<Rightarrow> m
      | HeadersInstance hs \<Rightarrow> Map.empty
      | HeaderPairs ps \<Rightarrow> indexed 0 ps)"

definition not_authenticated :: string where
  "not_authenticated =
     ''Not authenticated. Run `npx vibekit-mcp-server login` to connect your account.''"

definition authentication_expired :: string where
  "authentication_expired =
     ''Authentication expired. Run `npx vibekit-mcp-server login` to reconnect.''"

text \<open>JavaScript truthiness of a parsed value. A number literal is zero when its
  mantissa has no digit but 0 (a literal so small that it rounds to zero is not seen as
  zero: numbers keep their text).\<close>

definition zero_lexeme :: "string \<Rightarrow> bool" where
  "zero_lexeme l =
     list_all (\<lambda>c. c = CHR ''0'' \<or> c = CHR ''.'' \<or> c = CHR ''-'')
       (takeWhile (\<lambda>c. c \<noteq> CHR ''e'' \<and> c \<noteq> CHR ''E'') l)"

definition js_truthy :: "json \<Rightarrow> bool" where
  "js_truthy j =
     (case j of
        JNull \<Rightarrow> False
      | JBool b \<Rightarrow> b
      | JNum l \<Rightarrow> \<not> zero_lexeme l
      | JStr s \<Rightarrow> s \<noteq> []
      | JArr _ \<Rightarrow> True
      | JObj _ \<Rightarrow> True)"

text \<open>\<^verbatim>\<open>new Date(token.expires_at).getTime() - Date.now() < 60_000\<close>; a comparison with
  \<^verbatim>\<open>NaN\<close> is false.\<close>

definition near_expiry :: "env \<Rightarrow> world \<Rightarrow> TokenData \<Rightarrow> bool" where
  "near_expiry e w token =
     (case Date_parse e (expires_at token) of
        None \<Rightarrow> False
      | Some t \<Rightarrow> t - Date_now e (history w) < 60000)"

text \<open>The init object of both resource calls: the caller's options, with the headers
  replaced by the two defaults overlaid with what the spread of the caller's headers
  copies.\<close>

definition authorized_request :: "string \<Rightarrow> string \<Rightarrow> options \<Rightarrow> string \<Rightarrow> request" where
  "authorized_request baseUrl endpoint opts token =
     \<lparr>url = baseUrl @ endpoint,
      http_method = opt_method opts,
      headers = [''Content-Type'' \<mapsto> ''application/json'',
                 ''Authorization'' \<mapsto> ''Bearer '' @ token] ++ spread (opt_headers opts),
      body = opt_body opts\<rparr>"

definition fetch_resource :: "env \<Rightarrow> site \<Rightarrow> request \<Rightarrow> world \<Rightarrow> api_reply \<times> world" where
  "fetch_resource e s req w = (resource_endpoint e (history w) req, log (Fetch s req) w)"

text \<open>\<^verbatim>\<open>throw new Error(error.error || `API error: ${status}`)\<close> with
  \<^verbatim>\<open>error = await r.json().catch(() => ({}))\<close>.\<close>

definition api_error :: "nat \<Rightarrow> json option \<Rightarrow> js_error" where
  "api_error status b =
     (let generic = Error (''API error: '' @ show_nat status) in
      case b of
        None \<Rightarrow> generic
      | Some JNull \<Rightarrow> TypeError
      | Some (JObj kvs) \<Rightarrow>
          (case map_of kvs ''error'' of
             None \<Rightarrow> generic
           | Some v \<Rightarrow>
               if js_truthy v then (case v of JStr s \<Rightarrow> Error s | _ \<Rightarrow> ErrorOf v)
               else generic)
      | Some _ \<Rightarrow> generic)"

text \<open>The end of both paths: the checks on \<^verbatim>\<open>ok\<close> and on status 204, and the body.\<close>

definition settle :: "api_reply \<Rightarrow> js_error + json" where
  "settle reply =
     (case reply of
        ApiRejected \<Rightarrow> Inl FetchFailed
      | ApiResponse status b \<Rightarrow>
          if \<not> ok status then Inl (api_error status b)
          else if status = 204 then Inr (JObj [])
          else (case b of None \<Rightarrow> Inl BodyNotJson | Some j \<Rightarrow> Inr j))"

text \<open>
  \<^verbatim>\<open>apiRequest\<close>. \<open>proactive_refresh\<close> is the block under the comment "Auto-refresh if
  token is expired (with 60s buffer)": it yields the record the call goes on with. A
  loaded value that is falsy fails the test \<^verbatim>\<open>!token\<close> like \<^verbatim>\<open>null\<close>.
\<close>

definition proactive_refresh :: "env \<Rightarrow> TokenData \<Rightarrow> world \<Rightarrow> TokenData \<times> world" where
  "proactive_refresh e token w =
     (if near_expiry e w token then
        (case refreshAccessToken e token w of
           (Some refreshed, w') \<Rightarrow> (refreshed, w')
         | (None, w') \<Rightarrow> (token, w'))
      else (token, w))"

definition apiRequest :: "env \<Rightarrow> string \<Rightarrow> options \<Rightarrow> world \<Rightarrow> (js_error + json) \<times> world" where
  "apiRequest e endpoint opts w =
     (case loadToken w of
        None \<Rightarrow> (Inl (Error not_authenticated), w)
      | Some j \<Rightarrow>
          if \<not> js_truthy j then (Inl (Error not_authenticated), w)
          else
            (case as_TokenData j of
               None \<Rightarrow> (Inl NotTyped, w)
             | Some stored \<Rightarrow>
                 (let (token, w1) = proactive_refresh e stored w;
                      baseUrl = getApiBaseUrl (VIBEKIT_API_URL e);
                      (response, w2) =
                        fetch_resource e PrimarySite
                          (authorized_request baseUrl endpoint opts (access_token token)) w1
                  in case response of
                       ApiRejected \<Rightarrow> (Inl FetchFailed, w2)
                     | ApiResponse status b \<Rightarrow>
                         if status = 401 then
                           (case refreshAccessToken e token w2 of
                              (None, w3) \<Rightarrow> (Inl (Error authentication_expired), w3)
                            | (Some refreshed, w3) \<Rightarrow>
                                (let (retry, w4) =
                                       fetch_resource e RetrySite
                                         (authorized_request baseUrl endpoint opts
                                            (access_token refreshed)) w3
                                 in (settle retry, w4)))
                         else (settle response, w2))))"

section \<open>login.ts: the device authorization flow\<close>

text \<open>The fields of \<^verbatim>\<open>TokenResponse\<close> carry the prefix \<open>resp_\<close>, and \<^verbatim>\<open>expires_in\<close> and
  \<^verbatim>\<open>interval\<close> of \<^verbatim>\<open>DeviceCodeResponse\<close> the prefix \<open>code_\<close>: a field name is a constant.\<close>

definition requestDeviceCode :: "env \<Rightarrow> world \<Rightarrow> (js_error + DeviceCodeResponse) \<times> world" where
  "requestDeviceCode e w =
     (let req = \<lparr>url = API_BASE_URL (VIBEKIT_API_URL e) @ ''/api/mcp/auth/device/code'',
                 http_method = Some ''POST'',
                 headers = json_headers,
                 body = Some (JSON_stringify 0 0
                          (JObj [(''client_id'', JStr ''claude-code''),
                                 (''scope'', JStr ''prompts:read prompts:write'')]))\<rparr>;
          w1 = log (Fetch DeviceCodeSite req) w
      in case device_code_endpoint e (history w) req of
           DeviceCodeRejected \<Rightarrow> (Inl FetchFailed, w1)
         | DeviceCodeReply status b \<Rightarrow>
             if \<not> ok status then
               (let generic = Error (''Failed to get device code: '' @ show_nat status) in
                case b of
                  CodeError (Some s) \<Rightarrow> (Inl (if s \<noteq> [] then Error s else generic), w1)
                | _ \<Rightarrow> (Inl generic, w1))
             else
               (case b of
                  CodeNotJson \<Rightarrow> (Inl BodyNotJson, w1)
                | CodeError _ \<Rightarrow> (Inl NotTyped, w1)
                | CodeGranted d \<Rightarrow> (Inr d, w1)))"

text \<open>One turn of the \<^verbatim>\<open>while (true)\<close> loop of \<^verbatim>\<open>pollForToken\<close>, and what it decides.\<close>

datatype poll_next = Return TokenResponse | Continue int | Throw js_error

definition token_request :: "env \<Rightarrow> string \<Rightarrow> request" where
  "token_request e deviceCode =
     \<lparr>url = API_BASE_URL (VIBEKIT_API_URL e) @ ''/api/mcp/auth/device/token'',
      http_method = Some ''POST'',
      headers = json_headers,
      body = Some (JSON_stringify 0 0 (JObj [(''device_code'', JStr deviceCode)]))\<rparr>"

text \<open>\<^verbatim>\<open>data.error_description || data.error || "Authentication failed"\<close>: an absent or
  empty string is falsy.\<close>

definition or_else :: "string option \<Rightarrow> string \<Rightarrow> string" where
  "or_else v d = (case v of None \<Rightarrow> d | Some s \<Rightarrow> if s = [] then d else s)"

definition failure_message :: "ErrorResponse \<Rightarrow> string" where
  "failure_message d =
     or_else (error_description d) (or_else (error d) ''Authentication failed'')"

definition decide :: "int \<Rightarrow> token_reply \<Rightarrow> poll_next \<times> event list" where
  "decide interval reply =
     (case reply of
        TokenRejected \<Rightarrow> (Throw FetchFailed, [])
      | TokenReply TokenNotJson \<Rightarrow> (Throw BodyNotJson, [])
      | TokenReply (Granted data) \<Rightarrow> (Return data, [])
      | TokenReply (Refused d) \<Rightarrow>
          if error d = Some ''authorization_pending'' then (Continue interval, [Stdout ''.''])
          else if error d = Some ''slow_down'' then (Continue (interval + 5), [])
          else if error d = Some ''expired_token''
            then (Throw (Error ''Authorization timed out. Please try again.''), [])
          else (Throw (Error (failure_message d)), []))"

definition poll_once :: "env \<Rightarrow> string \<Rightarrow> int \<Rightarrow> world \<Rightarrow> poll_next \<times> world" where
  "poll_once e deviceCode interval w =
     (let w1 = log (Sleep (interval * 1000)) w;
          req = token_request e deviceCode;
          (step, out) = decide interval (device_token_endpoint e (history w1) req);
          w2 = log (Fetch DeviceTokenSite req) w1
      in (step, w2\<lparr>history := history w2 @ out\<rparr>))"

partial_function (option) pollForToken ::
  "env \<Rightarrow> string \<Rightarrow> int \<Rightarrow> world \<Rightarrow> ((js_error + TokenResponse) \<times> world) option" where
  "pollForToken e deviceCode interval w =
     (case poll_once e deviceCode interval w of
        (Return data, w') \<Rightarrow> Some (Inr data, w')
      | (Continue interval', w') \<Rightarrow> pollForToken e deviceCode interval' w'
      | (Throw err, w') \<Rightarrow> Some (Inl err, w'))"

text \<open>\<^verbatim>\<open>login.ts: saveToken\<close>, which builds the record from the token payload.\<close>

definition login_saveToken :: "env \<Rightarrow> TokenResponse \<Rightarrow> world \<Rightarrow> js_error option \<times> world" where
  "login_saveToken e token w =
     (let w1 = (if \<not> config_dir w then w\<lparr>config_dir := True\<rparr> else w) in
      case toISOString e (Date_now e (history w1) + resp_expires_in token * 1000) of
        None \<Rightarrow> (Some RangeError, w1)
      | Some stamp \<Rightarrow>
          (let tokenData = \<lparr>access_token = resp_access_token token,
                            refresh_token = resp_refresh_token token,
                            expires_at = stamp,
                            user = resp_user token\<rparr>
           in (None, w1\<lparr>token_file := Some (JSON_stringify 2 0 (TokenData_json tokenData))\<rparr>)))"

text \<open>\<^verbatim>\<open>main\<close>: the outcome (an error is caught, printed and turned into
  \<^verbatim>\<open>process.exit(1)\<close>) and the final world; \<open>None\<close> when the poll loop never ends.
  What \<^verbatim>\<open>main\<close> prints is left out.\<close>

definition main :: "env \<Rightarrow> world \<Rightarrow> ((js_error + unit) \<times> world) option" where
  "main e w =
     (case requestDeviceCode e w of
        (Inl err, w1) \<Rightarrow> Some (Inl err, w1)
      | (Inr deviceCode, w1) \<Rightarrow>
          (case pollForToken e (device_code deviceCode) (code_interval deviceCode) w1 of
             None \<Rightarrow> None
           | Some (Inl err, w2) \<Rightarrow> Some (Inl err, w2)
           | Some (Inr token, w2) \<Rightarrow>
               (case login_saveToken e token w2 of
                  (Some err, w3) \<Rightarrow> Some (Inl err, w3)
                | (None, w3) \<Rightarrow> Some (Inr (), w3))))"

section \<open>Observing a run\<close>

text \<open>The events a call added to the log, and how many of them a given site made.\<close>

definition new_events :: "world \<Rightarrow> world \<Rightarrow> event list" where
  "new_events w w' = drop (length (history w)) (history w')"

definition at_site :: "site \<Rightarrow> event \<Rightarrow> bool" where
  "at_site s ev = (case ev of Fetch s' _ \<Rightarrow> s' = s | _ \<Rightarrow> False)"

definition calls :: "site \<Rightarrow> event list \<Rightarrow> nat" where
  "calls s evs = length (filter (at_site s) evs)"

text \<open>The events before the primary call, and the events after it.\<close>

definition before_primary :: "event list \<Rightarrow> event list" where
  "before_primary evs = takeWhile (\<lambda>ev. \<not> at_site PrimarySite ev) evs"

definition after_primary :: "event list \<Rightarrow> event list" where
  "after_primary evs = drop 1 (dropWhile (\<lambda>ev. \<not> at_site PrimarySite ev) evs)"

section \<open>Scenarios\<close>

text \<open>
  The setting of the end-to-end scenarios: the base URL \<^verbatim>\<open>https://api.example.test\<close>, a
  stored record that expires at 2026-01-01T00:00:00Z, a clock that stands still during
  the call, and a service given by what its refresh and resource endpoints answer.
\<close>

definition alice :: user where
  "alice = \<lparr>user_id = ''u1'', email = ''alice@example.test'', name = ''Alice''\<rparr>"

definition stored_record :: TokenData where
  "stored_record =
     \<lparr>access_token = ''A1'', refresh_token = ''R1'',
      expires_at = ''2026-01-01T00:00:00.000Z'', user = alice\<rparr>"

definition disk :: "string option \<Rightarrow> world" where
  "disk f = \<lparr>config_dir = True, token_file = f, history = []\<rparr>"

definition stored :: "TokenData \<Rightarrow> world" where
  "stored t = disk (Some (JSON_stringify 2 0 (TokenData_json t)))"

definition scenario :: "int \<Rightarrow> (event list \<Rightarrow> refresh_reply) \<Rightarrow> (event list \<Rightarrow> api_reply) \<Rightarrow> env" where
  "scenario now refresh resource =
     \<lparr>VIBEKIT_API_URL = Some ''https://api.example.test'',
      Date_now = (\<lambda>_. now),
      Date_parse = (\<lambda>s. if s = ''2026-01-01T00:00:00.000Z'' then Some 1767225600000 else None),
      Date_format = (\<lambda>t. if t = 1767229210000 then ''2026-01-01T01:00:10.000Z''
                          else if t = 1767225600000 then ''2026-01-01T00:00:00.000Z''
                          else ''1970-01-01T00:00:00.000Z''),
      refresh_endpoint = (\<lambda>h _. refresh h),
      resource_endpoint = (\<lambda>h _. resource h),
      device_code_endpoint = (\<lambda>_ _. DeviceCodeRejected),
      device_token_endpoint = (\<lambda>_ _. TokenRejected)\<rparr>"

text \<open>A caller that sets no option.\<close>

definition no_options :: options where
  "no_options = \<lparr>opt_method = None, opt_headers = NoHeaders, opt_body = None\<rparr>"

text \<open>The clock 10 seconds after the stored record expired, and 60 seconds, one
  millisecond less than 60 seconds, and an hour before it expires.\<close>

definition expired_10s_ago :: int where
  "expired_10s_ago = 1767225610000"

definition expires_in_60s :: int where
  "expires_in_60s = 1767225540000"

definition expires_in_59999ms :: int where
  "expires_in_59999ms = 1767225540001"

definition expires_in_1h :: int where
  "expires_in_1h = 1767222000000"

text \<open>Refresh endpoints: one that grants \<^verbatim>\<open>{access_token: "A2", expires_in: 3600}\<close>,
  one that answers 400, one that answers 200 with a body that is not JSON, and one
  that grants the first request and answers 400 from then on.\<close>

definition granted :: refresh_reply where
  "granted = RefreshResponse 200 (Some \<lparr>new_access_token = ''A2'', expires_in = 3600\<rparr>)"

definition refresh_grants :: "event list \<Rightarrow> refresh_reply" where
  "refresh_grants h = granted"

definition refresh_400 :: "event list \<Rightarrow> refresh_reply" where
  "refresh_400 h = RefreshResponse 400 None"

definition refresh_200_not_json :: "event list \<Rightarrow> refresh_reply" where
  "refresh_200_not_json h = RefreshResponse 200 None"

definition refresh_grants_once :: "event list \<Rightarrow> refresh_reply" where
  "refresh_grants_once h = (if calls RefreshSite h = 0 then granted else RefreshResponse 400 None)"

text \<open>Resource endpoints: one that answers \<^verbatim>\<open>{"ok": true}\<close>, one that answers 401, and
  one that answers 401 to the first call and \<^verbatim>\<open>{"ok": true}\<close> from then on.\<close>

definition ok_true :: api_reply where
  "ok_true = ApiResponse 200 (Some (JObj [(''ok'', JBool True)]))"

definition resource_ok :: "event list \<Rightarrow> api_reply" where
  "resource_ok h = ok_true"

definition resource_401 :: "event list \<Rightarrow> api_reply" where
  "resource_401 h = ApiResponse 401 None"

definition resource_401_once :: "event list \<Rightarrow> api_reply" where
  "resource_401_once h = (if calls PrimarySite h = 0 then ApiResponse 401 None else ok_true)"

definition refreshed_record :: TokenData where
  "refreshed_record =
     stored_record\<lparr>access_token := ''A2'', expires_at := ''2026-01-01T01:00:10.000Z''\<rparr>"

text \<open>Callers that supply their own \<^verbatim>\<open>Authorization\<close> and \<^verbatim>\<open>Content-Type\<close> headers: as
  a plain object, as a \<^verbatim>\<open>Headers\<close> instance, and as an array of pairs.\<close>

definition own_headers :: options where
  "own_headers =
     \<lparr>opt_method = Some ''GET'',
      opt_headers = HeadersObject
        [''Authorization'' \<mapsto> ''Basic abc'', ''Content-Type'' \<mapsto> ''text/plain''],
      opt_body = None\<rparr>"

definition instance_headers :: options where
  "instance_headers =
     \<lparr>opt_method = Some ''GET'',
      opt_headers = HeadersInstance
        [(''Authorization'', ''Basic abc''), (''Content-Type'', ''text/plain'')],
      opt_body = None\<rparr>"

definition pair_headers :: options where
  "pair_headers =
     \<lparr>opt_method = Some ''GET'',
      opt_headers = HeaderPairs
        [(''Authorization'', ''Basic abc''), (''Content-Type'', ''text/plain'')],
      opt_body = None\<rparr>"

text \<open>
  The device flow of the scenarios: the code endpoint hands out a device code with a poll
  interval of 5 seconds, and the token endpoint follows a script. The scripts: approval
  at once; \<^verbatim>\<open>authorization_pending\<close> twice and then approval; \<^verbatim>\<open>slow_down\<close> once and then
  approval; \<^verbatim>\<open>expired_token\<close>; \<^verbatim>\<open>access_denied\<close> with and without a description.
\<close>

definition device_grant :: DeviceCodeResponse where
  "device_grant =
     \<lparr>device_code = ''D1'', user_code = ''VIBE-1234'',
      verification_uri = ''https://api.example.test/device'',
      code_expires_in = 600, code_interval = 5\<rparr>"

definition payload :: TokenResponse where
  "payload =
     \<lparr>resp_access_token = ''A1'', resp_refresh_token = ''R1'', resp_token_type = ''Bearer'',
      resp_expires_in = 3600, resp_user = alice\<rparr>"

definition device_flow :: "(event list \<Rightarrow> token_reply) \<Rightarrow> env" where
  "device_flow script =
     (scenario expired_10s_ago refresh_400 resource_401)
       \<lparr>device_code_endpoint := (\<lambda>_ _. DeviceCodeReply 200 (CodeGranted device_grant)),
        device_token_endpoint := (\<lambda>h _. script h)\<rparr>"

definition refusal :: "string \<Rightarrow> string option \<Rightarrow> token_reply" where
  "refusal code description =
     TokenReply (Refused \<lparr>error = Some code, error_description = description\<rparr>)"

definition approved :: "event list \<Rightarrow> token_reply" where
  "approved h = TokenReply (Granted payload)"

definition pending_twice :: "event list \<Rightarrow> token_reply" where
  "pending_twice h =
     (if calls DeviceTokenSite h < 2 then refusal ''authorization_pending'' None
      else TokenReply (Granted payload))"

definition slow_down_once :: "event list \<Rightarrow> token_reply" where
  "slow_down_once h =
     (if calls DeviceTokenSite h < 1 then refusal ''slow_down'' None
      else TokenReply (Granted payload))"

definition code_expired :: "event list \<Rightarrow> token_reply" where
  "code_expired h = refusal ''expired_token'' None"

definition denied :: "string option \<Rightarrow> event list \<Rightarrow> token_reply" where
  "denied description h = refusal ''access_denied'' description"

section \<open>Facts about the JSON text functions\<close>

lemma below_16_cases:
  "k < (16::nat) \<Longrightarrow>
     k = 0 \<or> k = 1 \<or> k = 2 \<or> k = 3 \<or> k = 4 \<or> k = 5 \<or> k = 6 \<or> k = 7 \<or>
     k = 8 \<or> k = 9 \<or> k = 10 \<or> k = 11 \<or> k = 12 \<or> k = 13 \<or> k = 14 \<or> k = 15"
  by presburger

lemma hex_val_hex_digit:
  assumes "k < 16"
  shows "hex_val (hex_digit k) = Some k"
  using below_16_cases [OF assms]
  by (elim disjE) (simp_all add: hex_val_def hex_digit_def)

lemma hex4_control:
  assumes "n < 256"
  shows "hex4 (CHR ''0'') (CHR ''0'') (hex_digit (n div 16)) (hex_digit (n mod 16)) = Some n"
proof -
  from assms have "n div 16 < 16" by simp
  then have hi: "hex_val (hex_digit (n div 16)) = Some (n div 16)"
    by (rule hex_val_hex_digit)
  have lo: "hex_val (hex_digit (n mod 16)) = Some (n mod 16)"
    by (rule hex_val_hex_digit) simp
  have zero: "hex_val (CHR ''0'') = Some 0"
    by (simp add: hex_val_def)
  show ?thesis
    by (simp add: hex4_def hi lo zero)
qed

text \<open>Reading back what \<open>quote_char\<close> wrote for one character gives that character.\<close>

lemma parse_chars_quote_char: "parse_chars (quote_char c @ t) = prepend [c] (parse_chars t)"
proof -
  let ?short = "c = CHR 0x22 \<or> c = CHR 0x5C \<or> c = CHR 0x08 \<or> c = CHR 0x0C
                \<or> c = CHR 0x0A \<or> c = CHR 0x0D \<or> c = CHR 0x09"
  consider (short) ?short
    | (control) "\<not> ?short" "(of_char c :: nat) < 0x20"
    | (plain) "\<not> ?short" "\<not> (of_char c :: nat) < 0x20"
    by blast
  then show ?thesis
  proof cases
    case short
    then show ?thesis
      by (auto simp: quote_char_def unescape_def)
  next
    case control
    have "hex4 (CHR ''0'') (CHR ''0'') (hex_digit (of_char c div 16))
            (hex_digit (of_char c mod 16)) = Some (of_char c)"
      by (rule hex4_control) simp
    with control show ?thesis
      by (simp add: quote_char_def is_high_surrogate_def is_low_surrogate_def utf8_def)
  next
    case plain
    then show ?thesis
      by (simp add: quote_char_def)
  qed
qed

lemma parse_chars_escape: "parse_chars (escape s @ CHR 0x22 # rest) = Some (s, rest)"
proof (induction s)
  case Nil
  show ?case by (simp add: escape_def)
next
  case (Cons c s)
  have "parse_chars (escape (c # s) @ CHR 0x22 # rest)
        = parse_chars (quote_char c @ (escape s @ CHR 0x22 # rest))"
    by (simp add: escape_def)
  also have "\<dots> = prepend [c] (parse_chars (escape s @ CHR 0x22 # rest))"
    by (rule parse_chars_quote_char)
  also have "\<dots> = Some (c # s, rest)"
    by (simp add: Cons.IH prepend_def)
  finally show ?case .
qed

lemma skip_ws_Cons: "skip_ws (c # cs) = (if is_ws c then skip_ws cs else c # cs)"
  by (simp add: skip_ws_def)

lemma skip_ws_Nil: "skip_ws [] = []"
  by (simp add: skip_ws_def)

lemma is_ws_simps:
  "is_ws (CHR 0x0A)" "is_ws (CHR '' '')" "\<not> is_ws (CHR 0x22)" "\<not> is_ws (CHR ''{'')"
  "\<not> is_ws (CHR ''}'')" "\<not> is_ws (CHR '':'')" "\<not> is_ws (CHR '','')"
  by (simp_all add: is_ws_def)

lemma newline_indent_2:
  "newline_indent 2 0 = [CHR 0x0A]"
  "newline_indent 2 (Suc 0) = CHR 0x0A # ''  ''"
  "newline_indent 2 (Suc (Suc 0)) = CHR 0x0A # ''    ''"
  by (simp_all add: newline_indent_def eval_nat_numeral)

lemma parse_value_Cons:
  "parse_value (Suc n) (c # cs) =
     (if c = CHR 0x22 then
        (case parse_chars cs of None \<Rightarrow> None | Some (str, rest) \<Rightarrow> Some (JStr str, rest))
      else if c = CHR ''{'' then
        (case skip_ws cs of
           [] \<Rightarrow> None
         | d # r \<Rightarrow> if d = CHR ''}'' then Some (JObj [], r) else parse_members n [] (d # r))
      else if c = CHR ''['' then
        (case skip_ws cs of
           [] \<Rightarrow> None
         | d # r \<Rightarrow> if d = CHR '']'' then Some (JArr [], r) else parse_elements n [] (d # r))
      else parse_literal (c # cs))"
  by simp

text \<open>Parsing the text that \<^verbatim>\<open>JSON.stringify(tokenData, null, 2)\<close> writes for a record
  gives the record's object back, whatever the strings in it.\<close>

lemma parse_user_text:
  "parse_value (Suc (Suc (Suc (Suc (Suc n))))) (JSON_stringify 2 (Suc 0) (user_json u) @ rest)
     = Some (user_json u, rest)"
  by (simp add: user_json_def newline_indent_2 quote_def
        skip_ws_Cons skip_ws_Nil is_ws_simps parse_chars_escape)

lemma skip_ws_user_text:
  "skip_ws (JSON_stringify 2 (Suc 0) (user_json u) @ rest)
     = JSON_stringify 2 (Suc 0) (user_json u) @ rest"
  by (simp add: user_json_def skip_ws_Cons is_ws_simps)

lemma parse_TokenData_text:
  "parse_value (Suc (Suc (Suc (Suc (Suc (Suc (Suc (Suc (Suc (Suc n))))))))))
     (JSON_stringify 2 0 (TokenData_json t) @ rest)
     = Some (TokenData_json t, rest)"
  by (simp add: TokenData_json_def newline_indent_2 quote_def
        skip_ws_Cons skip_ws_Nil is_ws_simps parse_chars_escape
        skip_ws_user_text parse_user_text parse_value_Cons del: parse_value.simps)

lemma length_TokenData_text: "10 \<le> length (JSON_stringify 2 0 (TokenData_json t))"
  by (simp add: TokenData_json_def)

lemma JSON_roundtrip_TokenData:
  "JSON_parse (JSON_stringify 2 0 (TokenData_json t)) = Some (TokenData_json t)"
proof -
  let ?text = "JSON_stringify 2 0 (TokenData_json t)"
  have "\<exists>n. Suc (length ?text)
          = Suc (Suc (Suc (Suc (Suc (Suc (Suc (Suc (Suc (Suc n)))))))))"
    using length_TokenData_text [of t] by arith
  then obtain n where n: "Suc (length ?text)
          = Suc (Suc (Suc (Suc (Suc (Suc (Suc (Suc (Suc (Suc n)))))))))" ..
  have start: "skip_ws ?text = ?text"
    by (simp add: TokenData_json_def skip_ws_Cons is_ws_simps)
  have "parse_value (Suc (length ?text)) (?text @ []) = Some (TokenData_json t, [])"
    unfolding n by (rule parse_TokenData_text)
  then show ?thesis
    by (simp add: JSON_parse_def start skip_ws_Nil)
qed

lemma read_user_json: "read_user (user_json u) = Some u"
  by (simp add: read_user_def user_json_def str_field_def)

lemma read_TokenData_json: "read_TokenData (TokenData_json t) = Some t"
  by (simp add: read_TokenData_def TokenData_json_def str_field_def read_user_json)

lemma as_TokenData_json: "as_TokenData (TokenData_json t) = Some t"
  by (simp add: as_TokenData_def read_TokenData_json)

lemma as_TokenData_Some: "as_TokenData j = Some t \<Longrightarrow> j = TokenData_json t"
  by (auto simp: as_TokenData_def split: option.splits if_splits)

section \<open>The depth bound of the parser\<close>

text \<open>
  The depth bound is there to make the parser a total function and nothing else: a parse
  that succeeds within some bound consumed at least as many characters as it needed
  calls, so it succeeds within every bound from the length of its text on. What
  \<open>JSON_parse\<close> rejects, no bound accepts.
\<close>

lemma length_skip_ws: "length (skip_ws s) \<le> length s"
  by (simp add: skip_ws_def length_dropWhile_le)

lemma skip_ws_shorter: "skip_ws s = c # r \<Longrightarrow> length r < length s"
  using length_skip_ws [of s] by simp

lemma length_digits:
  "length s = length (takeWhile is_digit s) + length (dropWhile is_digit s)"
  by (metis length_append takeWhile_dropWhile_id)

lemma parse_chars_shorter: "parse_chars cs = Some (k, r) \<Longrightarrow> length r < length cs"
proof (induction cs arbitrary: k r rule: length_induct)
  case (1 cs)
  have IH: "length r' < length cs"
    if "parse_chars ys = Some (k', r')" "length ys < length cs" for ys k' r'
    using 1(1) that by (meson less_trans)
  show ?case
  proof (cases cs)
    case Nil
    with 1(2) show ?thesis by simp
  next
    case (Cons c cs')
    with 1(2) show ?thesis
      by (auto simp: prepend_def split: if_splits list.splits option.splits
          dest!: IH)
  qed
qed

lemma parse_number_shorter: "parse_number s = Some (l, r) \<Longrightarrow> length r < length s"
proof -
  assume p: "parse_number s = Some (l, r)"
  obtain sg s1 where sg: "parse_sign s = (sg, s1)"
    by (cases "parse_sign s")
  then have l1: "length s1 \<le> length s"
    by (auto simp: parse_sign_def split: list.splits if_splits)
  from p sg obtain ds s2 where i: "parse_int_part s1 = Some (ds, s2)"
    by (auto simp: parse_number_def split: option.splits)
  have l2: "length s2 < length s1"
    using i length_digits [of s1]
    by (auto simp: parse_int_part_def Let_def split: if_splits)
  from p sg i obtain fr s3 where f: "parse_frac s2 = Some (fr, s3)"
    by (auto simp: parse_number_def split: option.splits)
  have l3: "length s3 \<le> length s2"
    using f length_dropWhile_le [of is_digit "tl s2"]
    by (auto simp: parse_frac_def Let_def split: list.splits if_splits)
  from p sg i f obtain ex where x: "parse_exp s3 = Some (ex, r)"
    by (auto simp: parse_number_def split: option.splits)
  have l4: "length r \<le> length s3"
    using x length_dropWhile_le [of is_digit "tl s3"] length_dropWhile_le [of is_digit "tl (tl s3)"]
    by (auto simp: parse_exp_def Let_def split: list.splits if_splits)
  from l1 l2 l3 l4 show ?thesis
    by simp
qed

lemma parse_literal_shorter: "parse_literal s = Some (v, r) \<Longrightarrow> length r < length s"
proof -
  assume p: "parse_literal s = Some (v, r)"
  show ?thesis
  proof (cases "s = []")
    case True
    with p show ?thesis
      by (simp add: parse_literal_def parse_number_def parse_sign_def parse_int_part_def)
  next
    case False
    then have "0 < length s"
      by simp
    with p show ?thesis
      by (auto simp: parse_literal_def split: if_splits option.splits
          dest: parse_number_shorter)
  qed
qed

lemma parse_value_step:
  assumes IHm: "\<And>acc s v r m. parse_members n acc s = Some (v, r) \<Longrightarrow>
      length r < length s
      \<and> (length s - length r \<le> m \<longrightarrow> parse_members m acc s = Some (v, r))"
    and IHe: "\<And>acc s v r m. parse_elements n acc s = Some (v, r) \<Longrightarrow>
      length r < length s
      \<and> (length s - length r \<le> m \<longrightarrow> parse_elements m acc s = Some (v, r))"
    and p: "parse_value (Suc n) s = Some (v, r)"
  shows "length r < length s
      \<and> (\<forall>m. length s - length r \<le> m \<longrightarrow> parse_value m s = Some (v, r))"
proof -
  from p obtain c cs where s: "s = c # cs"
    by (cases s) auto
  have shorter: "length r < length s"
    using p s
    by (auto split: if_splits list.splits option.splits
        dest!: parse_chars_shorter parse_literal_shorter skip_ws_shorter IHm IHe)
  have "parse_value m s = Some (v, r)" if m: "length s - length r \<le> m" for m
  proof -
    from m shorter obtain k where k: "m = Suc k"
      by (cases m) auto
    have M: "parse_members k acc t = Some (v', r')"
      if "parse_members n acc t = Some (v', r')" "length t - length r' \<le> k" for acc t v' r'
      using IHm that by blast
    have E: "parse_elements k acc t = Some (v', r')"
      if "parse_elements n acc t = Some (v', r')" "length t - length r' \<le> k" for acc t v' r'
      using IHe that by blast
    show ?thesis
      using p s m shorter length_skip_ws [of cs] unfolding k
      by (auto split: if_splits list.splits option.splits intro!: M E)
  qed
  with shorter show ?thesis
    by blast
qed

lemma parse_elements_step:
  assumes IHv: "\<And>s v r m. parse_value n s = Some (v, r) \<Longrightarrow>
      length r < length s
      \<and> (length s - length r \<le> m \<longrightarrow> parse_value m s = Some (v, r))"
    and IHe: "\<And>acc s v r m. parse_elements n acc s = Some (v, r) \<Longrightarrow>
      length r < length s
      \<and> (length s - length r \<le> m \<longrightarrow> parse_elements m acc s = Some (v, r))"
    and p: "parse_elements (Suc n) acc s = Some (v, r)"
  shows "length r < length s
      \<and> (\<forall>m. length s - length r \<le> m \<longrightarrow> parse_elements m acc s = Some (v, r))"
proof -
  from p obtain x r0 where x: "parse_value n s = Some (x, r0)"
    by (auto split: option.splits)
  from IHv [OF x] have r0: "length r0 < length s"
    by simp
  from p x obtain d r1 where d: "skip_ws r0 = d # r1"
    by (auto split: list.splits)
  from skip_ws_shorter [OF d] have r1: "length r1 < length r0" .
  have next_shorter: "length (skip_ws r1) \<le> length r1"
    by (rule length_skip_ws)
  consider (last) "d = CHR '']''" "d \<noteq> CHR '',''" "r = r1" "v = JArr (acc @ [x])"
    | (more) "d = CHR '',''" "parse_elements n (acc @ [x]) (skip_ws r1) = Some (v, r)"
    using p x d by (auto split: if_splits)
  then show ?thesis
  proof cases
    case last
    have "parse_elements m acc s = Some (v, r)" if m: "length s - length r \<le> m" for m
    proof -
      from m r0 r1 last obtain k where k: "m = Suc k"
        by (cases m) auto
      with m r0 r1 last have "length s - length r0 \<le> k"
        by simp
      with IHv [OF x] have "parse_value k s = Some (x, r0)"
        by blast
      with d last show ?thesis
        unfolding k by simp
    qed
    with r0 r1 last show ?thesis
      by simp
  next
    case more
    from IHe [OF more(2)] have r: "length r < length (skip_ws r1)"
      by simp
    have "parse_elements m acc s = Some (v, r)" if m: "length s - length r \<le> m" for m
    proof -
      from m r0 r1 r next_shorter obtain k where k: "m = Suc k"
        by (cases m) auto
      with m r0 r1 r next_shorter
      have "length s - length r0 \<le> k" "length (skip_ws r1) - length r \<le> k"
        by simp_all
      with IHv [OF x] IHe [OF more(2)]
      have "parse_value k s = Some (x, r0)"
        "parse_elements k (acc @ [x]) (skip_ws r1) = Some (v, r)"
        by blast+
      with d more show ?thesis
        unfolding k by simp
    qed
    with r0 r1 r next_shorter show ?thesis
      by simp
  qed
qed

lemma parse_members_step:
  assumes IHv: "\<And>s v r m. parse_value n s = Some (v, r) \<Longrightarrow>
      length r < length s
      \<and> (length s - length r \<le> m \<longrightarrow> parse_value m s = Some (v, r))"
    and IHm: "\<And>acc s v r m. parse_members n acc s = Some (v, r) \<Longrightarrow>
      length r < length s
      \<and> (length s - length r \<le> m \<longrightarrow> parse_members m acc s = Some (v, r))"
    and p: "parse_members (Suc n) acc s = Some (v, r)"
  shows "length r < length s
      \<and> (\<forall>m. length s - length r \<le> m \<longrightarrow> parse_members m acc s = Some (v, r))"
proof -
  from p obtain cs where s: "s = CHR 0x22 # cs"
    by (cases s) (auto split: if_splits)
  from p s obtain k0 t0 where key: "parse_chars cs = Some (k0, t0)"
    by (auto split: option.splits)
  from parse_chars_shorter [OF key] have t0: "length t0 < length cs" .
  from p s key obtain t1 where colon: "skip_ws t0 = CHR '':'' # t1"
    by (auto split: list.splits if_splits)
  from skip_ws_shorter [OF colon] have t1: "length t1 < length t0" .
  have t1': "length (skip_ws t1) \<le> length t1"
    by (rule length_skip_ws)
  from p s key colon obtain x t2 where x: "parse_value n (skip_ws t1) = Some (x, t2)"
    by (auto split: option.splits)
  from IHv [OF x] have t2: "length t2 < length (skip_ws t1)"
    by simp
  from p s key colon x obtain d t3 where d: "skip_ws t2 = d # t3"
    by (auto split: list.splits)
  from skip_ws_shorter [OF d] have t3: "length t3 < length t2" .
  have t3': "length (skip_ws t3) \<le> length t3"
    by (rule length_skip_ws)
  consider (last) "d = CHR ''}''" "d \<noteq> CHR '',''" "r = t3" "v = JObj (AList.update k0 x acc)"
    | (more) "d = CHR '',''"
        "parse_members n (AList.update k0 x acc) (skip_ws t3) = Some (v, r)"
    using p s key colon x d by (auto split: if_splits)
  then show ?thesis
  proof cases
    case last
    have "parse_members m acc s = Some (v, r)" if m: "length s - length r \<le> m" for m
    proof -
      from m s t0 t1 t1' t2 t3 last obtain k where k: "m = Suc k"
        by (cases m) auto
      with m s t0 t1 t1' t2 t3 last have "length (skip_ws t1) - length t2 \<le> k"
        by simp
      with IHv [OF x] have "parse_value k (skip_ws t1) = Some (x, t2)"
        by blast
      with s key colon d last show ?thesis
        unfolding k by simp
    qed
    with s t0 t1 t1' t2 t3 last show ?thesis
      by simp
  next
    case more
    from IHm [OF more(2)] have r: "length r < length (skip_ws t3)"
      by simp
    have "parse_members m acc s = Some (v, r)" if m: "length s - length r \<le> m" for m
    proof -
      from m s t0 t1 t1' t2 t3 t3' r obtain k where k: "m = Suc k"
        by (cases m) auto
      with m s t0 t1 t1' t2 t3 t3' r
      have "length (skip_ws t1) - length t2 \<le> k" "length (skip_ws t3) - length r \<le> k"
        by simp_all
      with IHv [OF x] IHm [OF more(2)]
      have "parse_value k (skip_ws t1) = Some (x, t2)"
        "parse_members k (AList.update k0 x acc) (skip_ws t3) = Some (v, r)"
        by blast+
      with s key colon d more show ?thesis
        unfolding k by simp
    qed
    with s t0 t1 t1' t2 t3 t3' r show ?thesis
      by simp
  qed
qed

lemma parse_fuel_aux:
  "(\<forall>s v r. parse_value n s = Some (v, r) \<longrightarrow>
       length r < length s
       \<and> (\<forall>m. length s - length r \<le> m \<longrightarrow> parse_value m s = Some (v, r)))
   \<and> (\<forall>acc s v r. parse_members n acc s = Some (v, r) \<longrightarrow>
       length r < length s
       \<and> (\<forall>m. length s - length r \<le> m \<longrightarrow> parse_members m acc s = Some (v, r)))
   \<and> (\<forall>acc s v r. parse_elements n acc s = Some (v, r) \<longrightarrow>
       length r < length s
       \<and> (\<forall>m. length s - length r \<le> m \<longrightarrow> parse_elements m acc s = Some (v, r)))"
proof (induction n)
  case 0
  show ?case by simp
next
  case (Suc n)
  have IHv: "length r < length s \<and> (length s - length r \<le> m \<longrightarrow> parse_value m s = Some (v, r))"
    if "parse_value n s = Some (v, r)" for s v r m
    using Suc that by blast
  have IHm: "length r < length s
      \<and> (length s - length r \<le> m \<longrightarrow> parse_members m acc s = Some (v, r))"
    if "parse_members n acc s = Some (v, r)" for acc s v r m
    using Suc that by blast
  have IHe: "length r < length s
      \<and> (length s - length r \<le> m \<longrightarrow> parse_elements m acc s = Some (v, r))"
    if "parse_elements n acc s = Some (v, r)" for acc s v r m
    using Suc that by blast
  show ?case
    using parse_value_step [OF IHm IHe] parse_members_step [OF IHv IHm]
      parse_elements_step [OF IHv IHe]
    by blast
qed

text \<open>Whatever bound lets the parser read the whole text, \<open>JSON_parse\<close> reads it too.\<close>

lemma JSON_parse_any_bound:
  assumes "parse_value n (skip_ws src) = Some (v, rest)" and "skip_ws rest = []"
  shows "JSON_parse src = Some v"
proof -
  from parse_fuel_aux [of n] assms(1)
  have "\<forall>m. length (skip_ws src) - length rest \<le> m
          \<longrightarrow> parse_value m (skip_ws src) = Some (v, rest)"
    by blast
  moreover have "length (skip_ws src) - length rest \<le> Suc (length src)"
    using length_skip_ws [of src] by simp
  ultimately have "parse_value (Suc (length src)) (skip_ws src) = Some (v, rest)"
    by blast
  with assms(2) show ?thesis
    by (simp add: JSON_parse_def)
qed

section \<open>The base URL\<close>

text \<open>
  C9. The claim says that the login flow and the request client address one and the same
  base URL, which defaults to one production host when the environment variable is unset.
  With the variable unset the login flow addresses \<^verbatim>\<open>https://vibecoderskit.ai\<close> while
  the refresh operation and the request client address \<^verbatim>\<open>https://vibecoderskit.com\<close>.
\<close>

theorem C9_default_hosts_differ:
  "API_BASE_URL None = ''https://vibecoderskit.ai''
   \<and> getApiBaseUrl None = ''https://vibecoderskit.com''
   \<and> API_BASE_URL None \<noteq> getApiBaseUrl None"
  by (simp add: API_BASE_URL_def getApiBaseUrl_def env_or_def)

text \<open>Once the variable is set to a non-empty value, both use that value.\<close>

lemma base_url_overridden:
  "v \<noteq> [] \<Longrightarrow> API_BASE_URL (Some v) = v \<and> getApiBaseUrl (Some v) = v"
  by (simp add: API_BASE_URL_def getApiBaseUrl_def env_or_def)

section \<open>The credential store\<close>

lemma TokenData_json_not_null [simp]: "TokenData_json t \<noteq> JNull"
  by (simp add: TokenData_json_def)

lemma js_truthy_TokenData_json [simp]: "js_truthy (TokenData_json t)"
  by (simp add: TokenData_json_def js_truthy_def)

lemma loadToken_text:
  "token_file w = Some (JSON_stringify 2 0 (TokenData_json t))
     \<Longrightarrow> loadToken w = Some (TokenData_json t)"
  by (simp add: loadToken_def JSON_roundtrip_TokenData)

lemma token_file_saveToken:
  "token_file (saveToken t w) = Some (JSON_stringify 2 0 (TokenData_json t))"
  by (simp add: saveToken_def Let_def)

lemma history_saveToken [simp]: "history (saveToken t w) = history w"
  by (simp add: saveToken_def Let_def)

lemma stored_fields [simp]:
  "history (stored t) = []"
  "token_file (stored t) = Some (JSON_stringify 2 0 (TokenData_json t))"
  "config_dir (stored t)"
  by (simp_all add: stored_def disk_def)

lemma loadToken_stored: "loadToken (stored t) = Some (TokenData_json t)"
  by (rule loadToken_text) simp

lemma stored_record_fields:
  "access_token stored_record = ''A1''"
  "refresh_token stored_record = ''R1''"
  "expires_at stored_record = ''2026-01-01T00:00:00.000Z''"
  "user stored_record = alice"
  by (simp_all add: stored_record_def)

text \<open>
  C8. For every credential record, and whatever the directory and the file held before,
  \<^verbatim>\<open>saveToken\<close> followed by \<^verbatim>\<open>loadToken\<close> returns the record's object: the parsed value
  is the object written, key by key, and read at the type \<^verbatim>\<open>TokenData\<close> it is the
  record saved.
\<close>

theorem C8_save_then_load:
  "loadToken (saveToken t w) = Some (TokenData_json t)
   \<and> as_TokenData (TokenData_json t) = Some t"
proof
  show "loadToken (saveToken t w) = Some (TokenData_json t)"
    by (rule loadToken_text) (rule token_file_saveToken)
  show "as_TokenData (TokenData_json t) = Some t"
    by (rule as_TokenData_json)
qed

text \<open>
  C7. \<^verbatim>\<open>loadToken\<close> has no failing outcome: for a missing file, for an empty file and
  for a file whose text \<^verbatim>\<open>JSON.parse\<close> rejects, it returns absent.
\<close>

theorem C7_load_absent:
  "loadToken (w\<lparr>token_file := None\<rparr>) = None
   \<and> loadToken (w\<lparr>token_file := Some []\<rparr>) = None
   \<and> (JSON_parse data = None \<longrightarrow> loadToken (w\<lparr>token_file := Some data\<rparr>) = None)"
  by (simp add: loadToken_def JSON_parse_def skip_ws_Nil)

lemma JSON_parse_not_json: "JSON_parse ''{not json'' = None"
  by (simp add: JSON_parse_def skip_ws_Cons is_ws_def unescape_def)

theorem C7_load_absent_witness:
  "JSON_parse ''{not json'' = None
   \<and> loadToken (disk (Some ''{not json'')) = None
   \<and> loadToken (disk (Some [])) = None
   \<and> loadToken (disk None) = None"
  using C7_load_absent [of "disk None" "''{not json''"] JSON_parse_not_json
  by (simp add: disk_def)

text \<open>
  C4, as the claim states it, fails: \<^verbatim>\<open>loadToken\<close> returns whatever \<^verbatim>\<open>JSON.parse\<close>
  gives and checks no field. A file holding \<^verbatim>\<open>{}\<close> is not a credential record, yet the
  value loaded from it is not absent.
\<close>

theorem C4_counterexample:
  "loadToken (disk (Some ''{}'')) = Some (JObj [])
   \<and> as_TokenData (JObj []) = None
   \<and> loadToken (disk None) = None"
  by (simp add: loadToken_def disk_def JSON_parse_def skip_ws_Cons skip_ws_Nil is_ws_def
        as_TokenData_def read_TokenData_def str_field_def)

text \<open>
  C4, amended. A value returned by \<^verbatim>\<open>loadToken\<close> is the value of the JSON text in the
  file, whatever its shape, and nothing else is returned; the load is absent exactly for a
  missing file, a text that is not JSON, and the text \<^verbatim>\<open>null\<close>. So a file that is not
  JSON is treated as an absent file, and a file that holds a record's text yields that
  record.
\<close>

theorem C4_load_is_parsed_json:
  "((loadToken w = Some j)
      = (\<exists>data. token_file w = Some data \<and> JSON_parse data = Some j \<and> j \<noteq> JNull))
   \<and> ((loadToken w = None)
      = (token_file w = None
         \<or> (\<exists>data. token_file w = Some data
               \<and> (JSON_parse data = None \<or> JSON_parse data = Some JNull))))
   \<and> loadToken (w\<lparr>token_file := Some (JSON_stringify 2 0 (TokenData_json t))\<rparr>)
       = Some (TokenData_json t)"
  by (auto simp: loadToken_def JSON_roundtrip_TokenData split: option.splits)

section \<open>The refresh operation\<close>

lemma history_log [simp]: "history (log ev w) = history w @ [ev]"
  by (simp add: log_def)

lemma token_file_log [simp]: "token_file (log ev w) = token_file w"
  by (simp add: log_def)

lemma config_dir_log [simp]: "config_dir (log ev w) = config_dir w"
  by (simp add: log_def)

lemma history_refreshAccessToken:
  "history (snd (refreshAccessToken e t w)) = history w @ [Fetch RefreshSite (refresh_request e t)]"
  by (simp add: refreshAccessToken_def Let_def
      split: refresh_reply.split option.split)

lemma refreshAccessToken_None:
  assumes "refreshAccessToken e t w = (None, w')"
  shows "w' = log (Fetch RefreshSite (refresh_request e t)) w"
  using assms
  by (auto simp: refreshAccessToken_def Let_def
      split: refresh_reply.splits option.splits if_splits)

lemma refreshAccessToken_Some:
  assumes "refreshAccessToken e t w = (Some r, w')"
  shows "w' = saveToken r (log (Fetch RefreshSite (refresh_request e t)) w)
         \<and> refresh_token r = refresh_token t \<and> user r = user t"
  using assms
  by (auto simp: refreshAccessToken_def Let_def
      split: refresh_reply.splits option.splits if_splits)

text \<open>
  C3, as the claim states it, fails on a 2xx response whose body is not the JSON the
  endpoint promises: \<^verbatim>\<open>response.json()\<close> rejects, the \<^verbatim>\<open>catch\<close> returns \<^verbatim>\<open>null\<close>, and
  nothing is persisted. Here the refresh endpoint answers status 200 with such a body.
\<close>

theorem C3_counterexample:
  "refresh_endpoint (scenario expired_10s_ago refresh_200_not_json resource_ok) []
       (refresh_request (scenario expired_10s_ago refresh_200_not_json resource_ok) stored_record)
     = RefreshResponse 200 None
   \<and> ok 200
   \<and> fst (refreshAccessToken (scenario expired_10s_ago refresh_200_not_json resource_ok)
            stored_record (stored stored_record)) = None
   \<and> token_file (snd (refreshAccessToken
            (scenario expired_10s_ago refresh_200_not_json resource_ok)
            stored_record (stored stored_record)))
     = token_file (stored stored_record)"
  by (simp add: refreshAccessToken_def scenario_def refresh_200_not_json_def ok_def Let_def
        stored_def disk_def)

text \<open>
  C3, amended. \<^verbatim>\<open>refreshAccessToken\<close> has no failing outcome. Let \<open>reply\<close> be what the
  refresh endpoint answers and \<open>now\<close> the clock read after it.
  \<^item> When the request is rejected, the status is not 2xx, the body of a 2xx response
    cannot be read, or \<open>now + expires_in * 1000\<close> is beyond the range of dates, the
    result is absent and the store is as it was.
  \<^item> On a 2xx response carrying \<open>access_token\<close> and \<open>expires_in\<close>, the result is the
    given record with \<open>access_token\<close> replaced by the returned token and \<open>expires_at\<close> by
    the ISO text of \<open>now + expires_in * 1000\<close>, its \<open>refresh_token\<close> and \<open>user\<close> are those
    of the given record, and a load of the store afterwards returns this result.
\<close>

theorem C3_refresh_outcomes:
  assumes run: "refreshAccessToken e token w = (result, w')"
    and reply: "reply = refresh_endpoint e (history w) (refresh_request e token)"
    and now: "now = Date_now e (history w @ [Fetch RefreshSite (refresh_request e token)])"
  shows
    "(reply = RefreshRejected
        \<longrightarrow> result = None \<and> token_file w' = token_file w \<and> config_dir w' = config_dir w)
     \<and> (\<forall>status b. reply = RefreshResponse status b \<and> \<not> ok status
        \<longrightarrow> result = None \<and> token_file w' = token_file w \<and> config_dir w' = config_dir w)
     \<and> (\<forall>status. reply = RefreshResponse status None
        \<longrightarrow> result = None \<and> token_file w' = token_file w \<and> config_dir w' = config_dir w)
     \<and> (\<forall>status d. reply = RefreshResponse status (Some d)
              \<and> 8640000000000000 < \<bar>now + expires_in d * 1000\<bar>
        \<longrightarrow> result = None \<and> token_file w' = token_file w \<and> config_dir w' = config_dir w)
     \<and> (\<forall>status d. reply = RefreshResponse status (Some d) \<and> ok status
              \<and> \<bar>now + expires_in d * 1000\<bar> \<le> 8640000000000000
        \<longrightarrow> result = Some (token\<lparr>access_token := new_access_token d,
                                  expires_at := Date_format e (now + expires_in d * 1000)\<rparr>)
            \<and> map_option refresh_token result = Some (refresh_token token)
            \<and> map_option user result = Some (user token)
            \<and> loadToken w' = map_option TokenData_json result)"
  using run unfolding reply now
  by (auto simp: refreshAccessToken_def Let_def toISOString_def loadToken_text
        token_file_saveToken
      split: refresh_reply.splits option.splits if_splits)

theorem C3_refresh_outcomes_witness:
  "fst (refreshAccessToken (scenario expired_10s_ago refresh_grants resource_ok)
          stored_record (stored stored_record)) = Some refreshed_record
   \<and> loadToken (snd (refreshAccessToken (scenario expired_10s_ago refresh_grants resource_ok)
          stored_record (stored stored_record))) = Some (TokenData_json refreshed_record)
   \<and> fst (refreshAccessToken (scenario expired_10s_ago refresh_400 resource_ok)
          stored_record (stored stored_record)) = None
   \<and> token_file (snd (refreshAccessToken (scenario expired_10s_ago refresh_400 resource_ok)
          stored_record (stored stored_record))) = token_file (stored stored_record)"
  using
    C3_refresh_outcomes [of "scenario expired_10s_ago refresh_grants resource_ok"
      stored_record "stored stored_record", OF prod.collapse [symmetric] refl refl]
    C3_refresh_outcomes [of "scenario expired_10s_ago refresh_400 resource_ok"
      stored_record "stored stored_record", OF prod.collapse [symmetric] refl refl]
  by (simp add: scenario_def refresh_grants_def refresh_400_def granted_def ok_def
        stored_def disk_def expired_10s_ago_def refreshed_record_def)

section \<open>The authenticated request client\<close>

lemma proactive_refresh_history:
  "history (snd (proactive_refresh e t w))
     = history w @ (if near_expiry e w t then [Fetch RefreshSite (refresh_request e t)] else [])"
proof (cases "near_expiry e w t")
  case True
  obtain r w' where r: "refreshAccessToken e t w = (r, w')"
    by (cases "refreshAccessToken e t w")
  with history_refreshAccessToken [of e t w]
  have "history w' = history w @ [Fetch RefreshSite (refresh_request e t)]"
    by simp
  with True r show ?thesis
    by (simp add: proactive_refresh_def split: option.split)
next
  case False
  then show ?thesis
    by (simp add: proactive_refresh_def)
qed

lemma proactive_refresh_untouched:
  assumes "\<not> near_expiry e w t \<or> fst (refreshAccessToken e t w) = None"
  shows "proactive_refresh e t w
           = (t, if near_expiry e w t then log (Fetch RefreshSite (refresh_request e t)) w else w)"
proof (cases "near_expiry e w t")
  case True
  with assms have none: "fst (refreshAccessToken e t w) = None"
    by simp
  then obtain w' where r: "refreshAccessToken e t w = (None, w')"
    by (cases "refreshAccessToken e t w") simp
  from refreshAccessToken_None [OF r] True r show ?thesis
    by (simp add: proactive_refresh_def)
next
  case False
  then show ?thesis
    by (simp add: proactive_refresh_def)
qed

text \<open>The run of \<^verbatim>\<open>apiRequest\<close> on a stored record, step by step.\<close>

lemma apiRequest_stored:
  assumes "loadToken w = Some (TokenData_json t)"
    and "proactive_refresh e t w = (token, w1)"
    and "req = authorized_request (getApiBaseUrl (VIBEKIT_API_URL e)) endpoint opts
                 (access_token token)"
    and "w2 = log (Fetch PrimarySite req) w1"
  shows "apiRequest e endpoint opts w =
     (case resource_endpoint e (history w1) req of
        ApiRejected \<Rightarrow> (Inl FetchFailed, w2)
      | ApiResponse status b \<Rightarrow>
          if status = 401 then
            (case refreshAccessToken e token w2 of
               (None, w3) \<Rightarrow> (Inl (Error authentication_expired), w3)
             | (Some refreshed, w3) \<Rightarrow>
                 (let retry = authorized_request (getApiBaseUrl (VIBEKIT_API_URL e)) endpoint
                                opts (access_token refreshed)
                  in (settle (resource_endpoint e (history w3) retry),
                      log (Fetch RetrySite retry) w3)))
          else (settle (ApiResponse status b), w2))"
  using assms
  by (simp add: apiRequest_def fetch_resource_def Let_def as_TokenData_json
      split: api_reply.split prod.split option.split)

text \<open>
  C6. With nothing stored, \<^verbatim>\<open>apiRequest\<close> throws the error whose message tells the
  user to run the login command, and the world is the one it started in: no event was
  logged, so no refresh was attempted and no HTTP call made, and the store is unchanged.
\<close>

theorem C6_unauthenticated:
  assumes "loadToken w = None"
  shows "apiRequest e endpoint opts w
           = (Inl (Error
                ''Not authenticated. Run `npx vibekit-mcp-server login` to connect your account.''),
              w)"
  using assms by (simp add: apiRequest_def not_authenticated_def)

theorem C6_unauthenticated_witness:
  "loadToken (disk None) = None
   \<and> apiRequest (scenario expired_10s_ago refresh_grants resource_ok) ''/x'' no_options (disk None)
       = (Inl (Error
            ''Not authenticated. Run `npx vibekit-mcp-server login` to connect your account.''),
          disk None)
   \<and> new_events (disk None)
        (snd (apiRequest (scenario expired_10s_ago refresh_grants resource_ok) ''/x'' no_options
                (disk None))) = []"
proof -
  have absent: "loadToken (disk None) = None"
    by (simp add: loadToken_def disk_def)
  from C6_unauthenticated [OF absent] absent show ?thesis
    by (simp add: new_events_def)
qed

text \<open>What a call on a stored record adds to the log: the proactive refresh if the
  record is near expiry, the primary call, and after a 401 the reactive refresh and, if
  that gave a record, the retry.\<close>

lemma apiRequest_new_events:
  assumes stored: "loadToken w = Some (TokenData_json t)"
    and pro: "proactive_refresh e t w = (token, w1)"
    and req: "req = authorized_request (getApiBaseUrl (VIBEKIT_API_URL e)) endpoint opts
                 (access_token token)"
    and run: "apiRequest e endpoint opts w = (res, w')"
  shows "new_events w w' =
     (if near_expiry e w t then [Fetch RefreshSite (refresh_request e t)] else [])
     @ [Fetch PrimarySite req]
     @ (case resource_endpoint e (history w1) req of
          ApiRejected \<Rightarrow> []
        | ApiResponse status b \<Rightarrow>
            if status = 401 then
              Fetch RefreshSite (refresh_request e token)
              # (case fst (refreshAccessToken e token (log (Fetch PrimarySite req) w1)) of
                   None \<Rightarrow> []
                 | Some r \<Rightarrow>
                     [Fetch RetrySite
                        (authorized_request (getApiBaseUrl (VIBEKIT_API_URL e)) endpoint opts
                           (access_token r))])
            else [])"
proof -
  let ?P = "if near_expiry e w t then [Fetch RefreshSite (refresh_request e t)] else []"
  let ?w2 = "log (Fetch PrimarySite req) w1"
  have h1: "history w1 = history w @ ?P"
    using proactive_refresh_history [of e t w] pro by simp
  obtain r w3 where r: "refreshAccessToken e token ?w2 = (r, w3)"
    by (cases "refreshAccessToken e token ?w2")
  have h3: "history w3 = history w @ ?P @ [Fetch PrimarySite req,
              Fetch RefreshSite (refresh_request e token)]"
    using history_refreshAccessToken [of e token ?w2] r h1 by simp
  have "history w' = history w @ ?P @ [Fetch PrimarySite req]
     @ (case resource_endpoint e (history w1) req of
          ApiRejected \<Rightarrow> []
        | ApiResponse status b \<Rightarrow>
            if status = 401 then
              Fetch RefreshSite (refresh_request e token)
              # (case fst (refreshAccessToken e token ?w2) of
                   None \<Rightarrow> []
                 | Some r \<Rightarrow>
                     [Fetch RetrySite
                        (authorized_request (getApiBaseUrl (VIBEKIT_API_URL e)) endpoint opts
                           (access_token r))])
            else [])"
    using run r h1 h3
    unfolding apiRequest_stored [OF stored pro req refl]
    by (auto simp: Let_def split: api_reply.splits option.splits if_splits)
  then show ?thesis
    by (simp add: new_events_def)
qed

lemma before_primary_run:
  "before_primary
     ((if c then [Fetch RefreshSite r] else []) @ [Fetch PrimarySite q] @ rest)
   = (if c then [Fetch RefreshSite r] else [])"
  by (simp add: before_primary_def at_site_def)

lemma calls_primary_run:
  "calls PrimarySite
     ((if c then [Fetch RefreshSite r] else []) @ [Fetch PrimarySite q]
      @ (case reply of
           ApiRejected \<Rightarrow> []
         | ApiResponse status b \<Rightarrow>
             if status = 401 then
               Fetch RefreshSite r2 # (case x of None \<Rightarrow> [] | Some y \<Rightarrow> [Fetch RetrySite (f y)])
             else [])) = 1"
  by (simp add: calls_def at_site_def split: api_reply.split option.split)

text \<open>
  C2, as the claim states it, fails at the boundary: the test is
  \<^verbatim>\<open>expiresAt.getTime() - Date.now() < 60_000\<close>, so a record that expires in exactly 60
  seconds triggers no proactive refresh. Here no refresh is attempted at all.
\<close>

theorem C2_counterexample:
  "Date_parse (scenario expires_in_60s refresh_grants resource_ok) (expires_at stored_record)
     = Some (Date_now (scenario expires_in_60s refresh_grants resource_ok) [] + 60000)
   \<and> loadToken (stored stored_record) = Some (TokenData_json stored_record)
   \<and> calls RefreshSite
        (new_events (stored stored_record)
           (snd (apiRequest (scenario expires_in_60s refresh_grants resource_ok) ''/x''
                   no_options (stored stored_record)))) = 0"
  by (simp add: loadToken_stored as_TokenData_json apiRequest_def proactive_refresh_def
        near_expiry_def fetch_resource_def scenario_def resource_ok_def ok_true_def
        stored_record_fields expires_in_60s_def new_events_def calls_def at_site_def
        settle_def ok_def)

text \<open>
  C2, amended. For a stored credential record, \<^verbatim>\<open>apiRequest\<close> makes no proactive refresh
  attempt when \<open>expires_at\<close> is 60 seconds or more after the current time, or is not a
  date, and makes exactly one, before the primary call, when \<open>expires_at\<close> is less than 60
  seconds after the current time. The primary call is made once in every case.
\<close>

theorem C2_proactive_refresh:
  assumes stored: "loadToken w = Some (TokenData_json t)"
    and run: "apiRequest e endpoint opts w = (res, w')"
  shows
    "(\<forall>x. Date_parse e (expires_at t) = Some x \<and> 60000 \<le> x - Date_now e (history w)
        \<longrightarrow> calls RefreshSite (before_primary (new_events w w')) = 0)
     \<and> (Date_parse e (expires_at t) = None
        \<longrightarrow> calls RefreshSite (before_primary (new_events w w')) = 0)
     \<and> (\<forall>x. Date_parse e (expires_at t) = Some x \<and> x - Date_now e (history w) < 60000
        \<longrightarrow> before_primary (new_events w w') = [Fetch RefreshSite (refresh_request e t)]
            \<and> calls RefreshSite (before_primary (new_events w w')) = 1)
     \<and> calls PrimarySite (new_events w w') = 1"
proof -
  obtain token w1 where pro: "proactive_refresh e t w = (token, w1)"
    by (cases "proactive_refresh e t w")
  note ev = apiRequest_new_events [OF stored pro refl run]
  have before: "before_primary (new_events w w')
      = (if near_expiry e w t then [Fetch RefreshSite (refresh_request e t)] else [])"
    unfolding ev by (rule before_primary_run)
  have once: "calls PrimarySite (new_events w w') = 1"
    unfolding ev by (rule calls_primary_run)
  show ?thesis
    unfolding before using once
    by (auto simp: near_expiry_def calls_def at_site_def)
qed

theorem C2_proactive_refresh_witness:
  "Date_parse (scenario expires_in_59999ms refresh_grants resource_ok) (expires_at stored_record)
     = Some (Date_now (scenario expires_in_59999ms refresh_grants resource_ok) [] + 59999)
   \<and> before_primary
        (new_events (stored stored_record)
           (snd (apiRequest (scenario expires_in_59999ms refresh_grants resource_ok) ''/x''
                   no_options (stored stored_record))))
       = [Fetch RefreshSite
            (refresh_request (scenario expires_in_59999ms refresh_grants resource_ok)
               stored_record)]
   \<and> Date_parse (scenario expires_in_1h refresh_grants resource_ok) (expires_at stored_record)
     = Some (Date_now (scenario expires_in_1h refresh_grants resource_ok) [] + 3600000)
   \<and> calls RefreshSite
        (before_primary
           (new_events (stored stored_record)
              (snd (apiRequest (scenario expires_in_1h refresh_grants resource_ok) ''/x''
                      no_options (stored stored_record))))) = 0"
  using
    C2_proactive_refresh [of "stored stored_record"
      stored_record "scenario expires_in_59999ms refresh_grants resource_ok" "''/x''" no_options,
      OF loadToken_stored prod.collapse [symmetric]]
    C2_proactive_refresh [of "stored stored_record"
      stored_record "scenario expires_in_1h refresh_grants resource_ok" "''/x''" no_options,
      OF loadToken_stored prod.collapse [symmetric]]
  by (simp add: scenario_def stored_record_fields expires_in_59999ms_def expires_in_1h_def)

text \<open>
  What the spread copies under a given name. The index of an array element is a decimal
  number, so an array of pairs puts nothing under a name that is not one, and only a
  plain object can put a value under \<^verbatim>\<open>Authorization\<close> or \<^verbatim>\<open>Content-Type\<close>.
\<close>

lemma show_nat_digits:
  "set (show_nat n) \<subseteq> set ''0123456789''"
proof (induction n rule: show_nat.induct)
  case (1 n)
  have digit: "hex_digit k \<in> set ''0123456789''" if "k < 10" for k
  proof -
    from that
    have "k = 0 \<or> k = 1 \<or> k = 2 \<or> k = 3 \<or> k = 4 \<or> k = 5 \<or> k = 6 \<or> k = 7 \<or> k = 8 \<or> k = 9"
      by presburger
    then show ?thesis
      by (elim disjE) (simp_all add: hex_digit_def)
  qed
  show ?case
  proof (cases "n < 10")
    case True
    with digit [of n] show ?thesis
      by (subst show_nat.simps) simp
  next
    case False
    with 1 digit [of "n mod 10"] show ?thesis
      by (subst show_nat.simps) simp
  qed
qed

lemma indexed_named:
  assumes "\<not> set k \<subseteq> set ''0123456789''"
  shows "indexed i ps k = None"
proof (induction ps arbitrary: i)
  case Nil
  show ?case
    by simp
next
  case (Cons p ps)
  from assms show_nat_digits [of i] have "k \<noteq> show_nat i"
    by blast
  with Cons show ?case
    by (simp del: show_nat.simps)
qed

lemma spread_named:
  assumes "\<not> set k \<subseteq> set ''0123456789''"
  shows "spread h k = (case h of HeadersObject m \<Rightarrow> m k | _ \<Rightarrow> None)"
  by (simp add: spread_def indexed_named [OF assms] split: headers_init.split)

lemma spread_Authorization:
  "spread h ''Authorization'' = (case h of HeadersObject m \<Rightarrow> m ''Authorization'' | _ \<Rightarrow> None)"
  by (rule spread_named) simp

lemma spread_Content_Type:
  "spread h ''Content-Type'' = (case h of HeadersObject m \<Rightarrow> m ''Content-Type'' | _ \<Rightarrow> None)"
  by (rule spread_named) simp

lemma headers_authorized_request:
  "headers (authorized_request baseUrl endpoint opts tok)
     = [''Content-Type'' \<mapsto> ''application/json'', ''Authorization'' \<mapsto> ''Bearer '' @ tok]
       ++ spread (opt_headers opts)"
  by (simp add: authorized_request_def)

lemma Authorization_authorized_request:
  "headers (authorized_request baseUrl endpoint opts tok) ''Authorization''
     = (case opt_headers opts of
          HeadersObject m \<Rightarrow>
            (case m ''Authorization'' of None \<Rightarrow> Some (''Bearer '' @ tok) | Some v \<Rightarrow> Some v)
        | _ \<Rightarrow> Some (''Bearer '' @ tok))"
  by (simp add: headers_authorized_request map_add_def spread_Authorization
      split: headers_init.split option.split)

lemma Content_Type_authorized_request:
  "headers (authorized_request baseUrl endpoint opts tok) ''Content-Type''
     = (case opt_headers opts of
          HeadersObject m \<Rightarrow>
            (case m ''Content-Type'' of None \<Rightarrow> Some ''application/json'' | Some v \<Rightarrow> Some v)
        | _ \<Rightarrow> Some ''application/json'')"
  by (simp add: headers_authorized_request map_add_def spread_Content_Type
      split: headers_init.split option.split)

text \<open>
  A run used below. The stored record is an hour from expiry, so no proactive refresh
  runs; the resource endpoint answers 401 to the primary call and the refresh endpoint
  grants \<^verbatim>\<open>A2\<close>: the call logs the primary call built from \<^verbatim>\<open>A1\<close>, the refresh and the
  retry built from \<^verbatim>\<open>A2\<close>, whatever the caller's options.
\<close>

lemma far_from_expiry:
  "proactive_refresh (scenario expires_in_1h refresh resource) stored_record (stored stored_record)
     = (stored_record, stored stored_record)"
  by (simp add: proactive_refresh_def near_expiry_def scenario_def stored_record_fields
      expires_in_1h_def)

lemma run_refresh_retry:
  "new_events (stored stored_record)
     (snd (apiRequest (scenario expires_in_1h refresh_grants resource_401_once) ''/x'' opts
             (stored stored_record)))
     = [Fetch PrimarySite (authorized_request ''https://api.example.test'' ''/x'' opts ''A1''),
        Fetch RefreshSite
          (refresh_request (scenario expires_in_1h refresh_grants resource_401_once)
             stored_record),
        Fetch RetrySite (authorized_request ''https://api.example.test'' ''/x'' opts ''A2'')]"
proof -
  let ?e = "scenario expires_in_1h refresh_grants resource_401_once"
  have base: "getApiBaseUrl (VIBEKIT_API_URL ?e) = ''https://api.example.test''"
    by (simp add: scenario_def getApiBaseUrl_def env_or_def)
  have far: "\<not> near_expiry ?e (stored stored_record) stored_record"
    by (simp add: near_expiry_def scenario_def stored_record_fields expires_in_1h_def)
  have unauthorized: "resource_endpoint ?e [] req = ApiResponse 401 None" for req
    by (simp add: scenario_def resource_401_once_def calls_def)
  have granted: "map_option access_token
      (fst (refreshAccessToken ?e stored_record (log ev (stored stored_record)))) = Some ''A2''"
    for ev
    by (simp add: refreshAccessToken_def scenario_def refresh_grants_def granted_def ok_def
        Let_def toISOString_def expires_in_1h_def)
  show ?thesis
    using granted [of "Fetch PrimarySite
        (authorized_request ''https://api.example.test'' ''/x'' opts ''A1'')"]
    unfolding apiRequest_new_events [OF loadToken_stored
        far_from_expiry [of refresh_grants resource_401_once] refl prod.collapse [symmetric],
        where endpoint = "''/x''" and opts = opts]
    by (auto simp: base far unauthorized stored_record_fields split: option.splits)
qed

text \<open>
  C1, as the claim states it, fails in two places.
  \<^item> Its last clause: when the record is near expiry the proactive refresh runs first
    and, if it succeeds, writes the new record; a 401 on the primary call and a failed
    reactive refresh then end the call with the "authentication expired" error, and the
    file is no longer what it was before the call. Here the refresh endpoint grants the
    first request and answers 400 to the second, and the resource endpoint answers 401.
  \<^item> "With the new access token": the caller's headers are spread over the bearer
    header in the retry as in the primary call. Here the caller passes a plain object
    with its own \<^verbatim>\<open>Authorization\<close> and \<^verbatim>\<open>Content-Type\<close>, the primary call returns 401 and
    the refresh grants \<^verbatim>\<open>A2\<close>: the retry carries the caller's \<^verbatim>\<open>Basic abc\<close>, and is the
    very request of the primary call, with no trace of the new access token.
\<close>

theorem C1_counterexample:
  "fst (apiRequest (scenario expired_10s_ago refresh_grants_once resource_401) ''/x''
          no_options (stored stored_record))
     = Inl (Error authentication_expired)
   \<and> loadToken (stored stored_record) = Some (TokenData_json stored_record)
   \<and> loadToken (snd (apiRequest (scenario expired_10s_ago refresh_grants_once resource_401)
          ''/x'' no_options (stored stored_record)))
     = Some (TokenData_json refreshed_record)
   \<and> TokenData_json refreshed_record \<noteq> TokenData_json stored_record
   \<and> new_events (stored stored_record)
        (snd (apiRequest (scenario expires_in_1h refresh_grants resource_401_once) ''/x''
                own_headers (stored stored_record)))
     = [Fetch PrimarySite
          (authorized_request ''https://api.example.test'' ''/x'' own_headers ''A1''),
        Fetch RefreshSite
          (refresh_request (scenario expires_in_1h refresh_grants resource_401_once)
             stored_record),
        Fetch RetrySite
          (authorized_request ''https://api.example.test'' ''/x'' own_headers ''A2'')]
   \<and> headers (authorized_request ''https://api.example.test'' ''/x'' own_headers ''A2'')
        ''Authorization'' = Some ''Basic abc''
   \<and> authorized_request ''https://api.example.test'' ''/x'' own_headers ''A2''
     = authorized_request ''https://api.example.test'' ''/x'' own_headers ''A1''"
proof -
  have differ: "TokenData_json refreshed_record \<noteq> TokenData_json stored_record"
    by (simp add: TokenData_json_def refreshed_record_def stored_record_fields)
  have disk:
    "fst (apiRequest (scenario expired_10s_ago refresh_grants_once resource_401) ''/x''
            no_options (stored stored_record))
       = Inl (Error authentication_expired)
     \<and> loadToken (stored stored_record) = Some (TokenData_json stored_record)
     \<and> loadToken (snd (apiRequest (scenario expired_10s_ago refresh_grants_once resource_401)
            ''/x'' no_options (stored stored_record)))
       = Some (TokenData_json refreshed_record)"
    by (simp add: loadToken_stored as_TokenData_json apiRequest_def proactive_refresh_def
        near_expiry_def fetch_resource_def refreshAccessToken_def toISOString_def
        scenario_def resource_401_def refresh_grants_once_def granted_def
        stored_record_fields expired_10s_ago_def calls_def at_site_def ok_def Let_def
        loadToken_text token_file_saveToken refreshed_record_def)
  have caller: "headers (authorized_request ''https://api.example.test'' ''/x'' own_headers ''A2'')
      ''Authorization'' = Some ''Basic abc''"
    by (simp add: Authorization_authorized_request own_headers_def)
  have same: "authorized_request ''https://api.example.test'' ''/x'' own_headers ''A2''
      = authorized_request ''https://api.example.test'' ''/x'' own_headers ''A1''"
    by (auto simp: authorized_request_def own_headers_def spread_def map_add_def fun_eq_iff)
  from differ disk caller same run_refresh_retry [of own_headers] show ?thesis
    by (simp only: simp_thms)
qed

text \<open>
  C1, amended. Take a call on a stored record, \<open>token\<close> and \<open>w1\<close> being the record in use
  and the world once the proactive step is over, and let the primary call return 401.
  Then exactly one refresh is attempted after the primary call.
  \<^item> If it fails, the call fails with the "authentication expired" error, which names
    the login command; nothing follows the refresh in the log, so there is no retry;
    the file is what it was when the primary call was made, and what it was before the
    call whenever no proactive refresh succeeded.
  \<^item> If it gives a record, exactly one retry follows, the request of the primary call
    built anew from the new access token, and the call ends with what that retry settles
    to; nothing follows the retry in the log. The \<^verbatim>\<open>Authorization\<close> header of the retry is
    the bearer header of the new access token, except when the caller's headers are a
    plain object with an \<^verbatim>\<open>Authorization\<close> of its own: then it is the caller's value.
\<close>

theorem C1_reactive_refresh:
  assumes stored: "loadToken w = Some (TokenData_json t)"
    and pro: "proactive_refresh e t w = (token, w1)"
    and req: "req = authorized_request (getApiBaseUrl (VIBEKIT_API_URL e)) endpoint opts
                 (access_token token)"
    and unauthorized: "resource_endpoint e (history w1) req = ApiResponse 401 b"
    and reactive: "refreshAccessToken e token (log (Fetch PrimarySite req) w1) = (refreshed, w3)"
    and run: "apiRequest e endpoint opts w = (res, w')"
  shows
    "calls RefreshSite (after_primary (new_events w w')) = 1
     \<and> (refreshed = None \<longrightarrow>
          res = Inl (Error
            ''Authentication expired. Run `npx vibekit-mcp-server login` to reconnect.'')
          \<and> after_primary (new_events w w') = [Fetch RefreshSite (refresh_request e token)]
          \<and> calls RetrySite (new_events w w') = 0
          \<and> token_file w' = token_file w1)
     \<and> (refreshed = None \<and> (\<not> near_expiry e w t \<or> fst (refreshAccessToken e t w) = None)
          \<longrightarrow> token_file w' = token_file w)
     \<and> (\<forall>r. refreshed = Some r \<longrightarrow>
          after_primary (new_events w w')
            = [Fetch RefreshSite (refresh_request e token),
               Fetch RetrySite
                 (authorized_request (getApiBaseUrl (VIBEKIT_API_URL e)) endpoint opts
                    (access_token r))]
          \<and> calls RetrySite (new_events w w') = 1
          \<and> res = settle (resource_endpoint e (history w3)
                      (authorized_request (getApiBaseUrl (VIBEKIT_API_URL e)) endpoint opts
                         (access_token r)))
          \<and> headers (authorized_request (getApiBaseUrl (VIBEKIT_API_URL e)) endpoint opts
                       (access_token r)) ''Authorization''
              = (case opt_headers opts of
                   HeadersObject m \<Rightarrow>
                     (case m ''Authorization'' of
                        None \<Rightarrow> Some (''Bearer '' @ access_token r)
                      | Some v \<Rightarrow> Some v)
                 | _ \<Rightarrow> Some (''Bearer '' @ access_token r)))"
proof -
  let ?retry = "\<lambda>r. authorized_request (getApiBaseUrl (VIBEKIT_API_URL e)) endpoint opts
                      (access_token r)"
  note ev = apiRequest_new_events [OF stored pro req run]
  have after: "after_primary (new_events w w')
      = Fetch RefreshSite (refresh_request e token)
        # (case refreshed of None \<Rightarrow> [] | Some r \<Rightarrow> [Fetch RetrySite (?retry r)])"
    unfolding ev by (simp add: after_primary_def at_site_def unauthorized reactive)
  have retries: "calls RetrySite (new_events w w')
      = (case refreshed of None \<Rightarrow> 0 | Some r \<Rightarrow> 1)"
    unfolding ev
    by (simp add: unauthorized reactive calls_def at_site_def split: option.split)
  have result: "(res, w') =
      (case refreshed of
         None \<Rightarrow> (Inl (Error authentication_expired), w3)
       | Some r \<Rightarrow> (settle (resource_endpoint e (history w3) (?retry r)),
                    log (Fetch RetrySite (?retry r)) w3))"
    using run unfolding apiRequest_stored [OF stored pro req refl]
    by (auto simp: unauthorized reactive Let_def split: option.splits)
  have failed: "token_file w' = token_file w1" if "refreshed = None"
  proof -
    from that reactive
    have "w3 = log (Fetch RefreshSite (refresh_request e token)) (log (Fetch PrimarySite req) w1)"
      by (simp add: refreshAccessToken_None)
    with that result show ?thesis
      by simp
  qed
  have untouched: "token_file w1 = token_file w"
    if "\<not> near_expiry e w t \<or> fst (refreshAccessToken e t w) = None"
    using proactive_refresh_untouched [OF that] pro by (auto split: if_splits)
  note header = Authorization_authorized_request
    [of "getApiBaseUrl (VIBEKIT_API_URL e)" endpoint opts]
  show ?thesis
  proof (cases refreshed)
    case None
    with after retries result failed untouched show ?thesis
      by (auto simp: calls_def at_site_def authentication_expired_def)
  next
    case (Some r)
    with after retries result header [of "access_token r"] show ?thesis
      by (simp add: calls_def at_site_def)
  qed
qed

theorem C1_reactive_refresh_witness:
  "fst (apiRequest (scenario expires_in_1h refresh_400 resource_401) ''/x'' no_options
          (stored stored_record))
     = Inl (Error ''Authentication expired. Run `npx vibekit-mcp-server login` to reconnect.'')
   \<and> token_file (snd (apiRequest (scenario expires_in_1h refresh_400 resource_401) ''/x''
          no_options (stored stored_record))) = token_file (stored stored_record)
   \<and> calls RetrySite (new_events (stored stored_record)
          (snd (apiRequest (scenario expires_in_1h refresh_400 resource_401) ''/x''
             no_options (stored stored_record)))) = 0
   \<and> fst (apiRequest (scenario expires_in_1h refresh_grants resource_401_once) ''/x'' no_options
          (stored stored_record))
     = Inr (JObj [(''ok'', JBool True)])
   \<and> calls RefreshSite (after_primary (new_events (stored stored_record)
          (snd (apiRequest (scenario expires_in_1h refresh_grants resource_401_once) ''/x''
             no_options (stored stored_record))))) = 1
   \<and> calls RetrySite (new_events (stored stored_record)
          (snd (apiRequest (scenario expires_in_1h refresh_grants resource_401_once) ''/x''
             no_options (stored stored_record)))) = 1
   \<and> after_primary (new_events (stored stored_record)
          (snd (apiRequest (scenario expires_in_1h refresh_grants resource_401_once) ''/x''
             no_options (stored stored_record))))
     = [Fetch RefreshSite
          (refresh_request (scenario expires_in_1h refresh_grants resource_401_once)
             stored_record),
        Fetch RetrySite
          (authorized_request ''https://api.example.test'' ''/x'' no_options ''A2'')]
   \<and> headers (authorized_request ''https://api.example.test'' ''/x'' no_options ''A2'')
        ''Authorization'' = Some ''Bearer A2''
   \<and> after_primary (new_events (stored stored_record)
          (snd (apiRequest (scenario expires_in_1h refresh_grants resource_401_once) ''/x''
             own_headers (stored stored_record))))
     = [Fetch RefreshSite
          (refresh_request (scenario expires_in_1h refresh_grants resource_401_once)
             stored_record),
        Fetch RetrySite
          (authorized_request ''https://api.example.test'' ''/x'' own_headers ''A2'')]
   \<and> headers (authorized_request ''https://api.example.test'' ''/x'' own_headers ''A2'')
        ''Authorization'' = Some ''Basic abc''"
proof -
  let ?fail = "scenario expires_in_1h refresh_400 resource_401"
  let ?retry = "scenario expires_in_1h refresh_grants resource_401_once"
  have base: "getApiBaseUrl (VIBEKIT_API_URL ?retry) = ''https://api.example.test''"
    by (simp add: scenario_def getApiBaseUrl_def env_or_def)
  have unauthorized_fail: "resource_endpoint ?fail (history (stored stored_record)) req
      = ApiResponse 401 None" for req
    by (simp add: scenario_def resource_401_def)
  have unauthorized_retry: "resource_endpoint ?retry (history (stored stored_record)) req
      = ApiResponse 401 None" for req
    by (simp add: scenario_def resource_401_once_def calls_def)
  have rejected: "fst (refreshAccessToken ?fail stored_record (log ev (stored stored_record)))
      = None" for ev
    by (simp add: refreshAccessToken_def scenario_def refresh_400_def ok_def Let_def)
  have granted: "\<exists>r. fst (refreshAccessToken ?retry stored_record
                           (log ev (stored stored_record))) = Some r
                     \<and> access_token r = ''A2''" for ev
    by (simp add: refreshAccessToken_def scenario_def refresh_grants_def granted_def ok_def
        Let_def toISOString_def expires_in_1h_def)
  have settled: "settle (resource_endpoint ?retry
      (history (snd (refreshAccessToken ?retry stored_record
                       (log (Fetch PrimarySite req) (stored stored_record))))) req')
      = Inr (JObj [(''ok'', JBool True)])" for req req'
    by (simp add: history_refreshAccessToken scenario_def resource_401_once_def calls_def
        at_site_def ok_true_def settle_def ok_def)
  note fail = C1_reactive_refresh [OF loadToken_stored far_from_expiry refl
      unauthorized_fail prod.collapse [symmetric] prod.collapse [symmetric],
      of "''/x''" no_options]
  note retry = C1_reactive_refresh [OF loadToken_stored far_from_expiry refl
      unauthorized_retry prod.collapse [symmetric] prod.collapse [symmetric],
      of "''/x''" no_options]
  note own = C1_reactive_refresh [OF loadToken_stored far_from_expiry refl
      unauthorized_retry prod.collapse [symmetric] prod.collapse [symmetric],
      of "''/x''" own_headers]
  have failing:
    "fst (apiRequest ?fail ''/x'' no_options (stored stored_record))
       = Inl (Error ''Authentication expired. Run `npx vibekit-mcp-server login` to reconnect.'')
     \<and> token_file (snd (apiRequest ?fail ''/x'' no_options (stored stored_record)))
       = token_file (stored stored_record)
     \<and> calls RetrySite (new_events (stored stored_record)
          (snd (apiRequest ?fail ''/x'' no_options (stored stored_record)))) = 0"
    using fail by (simp only: rejected simp_thms)
  obtain r where r: "fst (refreshAccessToken ?retry stored_record
      (log (Fetch PrimarySite
              (authorized_request (getApiBaseUrl (VIBEKIT_API_URL ?retry)) ''/x'' no_options
                 (access_token stored_record)))
         (stored stored_record))) = Some r"
    and new: "access_token r = ''A2''"
    using granted by blast
  have retrying:
    "fst (apiRequest ?retry ''/x'' no_options (stored stored_record))
       = Inr (JObj [(''ok'', JBool True)])
     \<and> calls RefreshSite (after_primary (new_events (stored stored_record)
          (snd (apiRequest ?retry ''/x'' no_options (stored stored_record))))) = 1
     \<and> calls RetrySite (new_events (stored stored_record)
          (snd (apiRequest ?retry ''/x'' no_options (stored stored_record)))) = 1
     \<and> after_primary (new_events (stored stored_record)
          (snd (apiRequest ?retry ''/x'' no_options (stored stored_record))))
       = [Fetch RefreshSite (refresh_request ?retry stored_record),
          Fetch RetrySite
            (authorized_request ''https://api.example.test'' ''/x'' no_options ''A2'')]
     \<and> headers (authorized_request ''https://api.example.test'' ''/x'' no_options ''A2'')
          ''Authorization'' = Some ''Bearer A2''"
    using retry
    by (simp only: r settled simp_thms option.inject option.distinct)
      (simp add: calls_def at_site_def new base no_options_def)
  obtain r' where r': "fst (refreshAccessToken ?retry stored_record
      (log (Fetch PrimarySite
              (authorized_request (getApiBaseUrl (VIBEKIT_API_URL ?retry)) ''/x'' own_headers
                 (access_token stored_record)))
         (stored stored_record))) = Some r'"
    and new': "access_token r' = ''A2''"
    using granted by blast
  have overriding:
    "after_primary (new_events (stored stored_record)
          (snd (apiRequest ?retry ''/x'' own_headers (stored stored_record))))
       = [Fetch RefreshSite (refresh_request ?retry stored_record),
          Fetch RetrySite
            (authorized_request ''https://api.example.test'' ''/x'' own_headers ''A2'')]
     \<and> headers (authorized_request ''https://api.example.test'' ''/x'' own_headers ''A2'')
          ''Authorization'' = Some ''Basic abc''"
    using own
    by (simp only: r' settled simp_thms option.inject option.distinct)
      (simp add: calls_def at_site_def new' base own_headers_def)
  from failing retrying overriding show ?thesis
    by blast
qed

text \<open>
  C10, as the claim states it, fails for two of the three forms of headers that the
  options admit. The spread \<^verbatim>\<open>...options.headers\<close> copies own enumerable properties: from a
  \<^verbatim>\<open>Headers\<close> instance it copies no header, and from an array of pairs it copies the pairs
  under their indices. Here the caller supplies \<^verbatim>\<open>Authorization: Basic abc\<close> and
  \<^verbatim>\<open>Content-Type: text/plain\<close>, the primary call returns 401 and the refresh grants \<^verbatim>\<open>A2\<close>.
  With a \<^verbatim>\<open>Headers\<close> instance, the primary call and the retry carry the two defaults and
  nothing else. With an array of pairs they carry the two defaults, and the caller's pairs
  as the values of headers named \<^verbatim>\<open>0\<close> and \<^verbatim>\<open>1\<close>.
\<close>

theorem C10_counterexample:
  "opt_headers instance_headers
     = HeadersInstance [(''Authorization'', ''Basic abc''), (''Content-Type'', ''text/plain'')]
   \<and> new_events (stored stored_record)
        (snd (apiRequest (scenario expires_in_1h refresh_grants resource_401_once) ''/x''
                instance_headers (stored stored_record)))
     = [Fetch PrimarySite
          (authorized_request ''https://api.example.test'' ''/x'' instance_headers ''A1''),
        Fetch RefreshSite
          (refresh_request (scenario expires_in_1h refresh_grants resource_401_once)
             stored_record),
        Fetch RetrySite
          (authorized_request ''https://api.example.test'' ''/x'' instance_headers ''A2'')]
   \<and> headers (authorized_request ''https://api.example.test'' ''/x'' instance_headers ''A1'')
     = [''Content-Type'' \<mapsto> ''application/json'', ''Authorization'' \<mapsto> ''Bearer A1'']
   \<and> headers (authorized_request ''https://api.example.test'' ''/x'' instance_headers ''A2'')
     = [''Content-Type'' \<mapsto> ''application/json'', ''Authorization'' \<mapsto> ''Bearer A2'']
   \<and> opt_headers pair_headers
     = HeaderPairs [(''Authorization'', ''Basic abc''), (''Content-Type'', ''text/plain'')]
   \<and> new_events (stored stored_record)
        (snd (apiRequest (scenario expires_in_1h refresh_grants resource_401_once) ''/x''
                pair_headers (stored stored_record)))
     = [Fetch PrimarySite
          (authorized_request ''https://api.example.test'' ''/x'' pair_headers ''A1''),
        Fetch RefreshSite
          (refresh_request (scenario expires_in_1h refresh_grants resource_401_once)
             stored_record),
        Fetch RetrySite
          (authorized_request ''https://api.example.test'' ''/x'' pair_headers ''A2'')]
   \<and> headers (authorized_request ''https://api.example.test'' ''/x'' pair_headers ''A1'')
     = [''Content-Type'' \<mapsto> ''application/json'', ''Authorization'' \<mapsto> ''Bearer A1'',
        ''1'' \<mapsto> ''Content-Type,text/plain'', ''0'' \<mapsto> ''Authorization,Basic abc'']
   \<and> headers (authorized_request ''https://api.example.test'' ''/x'' pair_headers ''A2'')
     = [''Content-Type'' \<mapsto> ''application/json'', ''Authorization'' \<mapsto> ''Bearer A2'',
        ''1'' \<mapsto> ''Content-Type,text/plain'', ''0'' \<mapsto> ''Authorization,Basic abc'']"
proof -
  have instance_init: "opt_headers instance_headers
      = HeadersInstance [(''Authorization'', ''Basic abc''), (''Content-Type'', ''text/plain'')]"
    by (simp add: instance_headers_def)
  have pair_init: "opt_headers pair_headers
      = HeaderPairs [(''Authorization'', ''Basic abc''), (''Content-Type'', ''text/plain'')]"
    by (simp add: pair_headers_def)
  have instance_sent:
    "headers (authorized_request ''https://api.example.test'' ''/x'' instance_headers tok)
       = [''Content-Type'' \<mapsto> ''application/json'', ''Authorization'' \<mapsto> ''Bearer '' @ tok]"
    for tok
    by (simp add: headers_authorized_request instance_init spread_def)
  have pairs_sent:
    "headers (authorized_request ''https://api.example.test'' ''/x'' pair_headers tok)
       = [''Content-Type'' \<mapsto> ''application/json'', ''Authorization'' \<mapsto> ''Bearer '' @ tok,
          ''1'' \<mapsto> ''Content-Type,text/plain'', ''0'' \<mapsto> ''Authorization,Basic abc'']"
    for tok
    by (simp add: headers_authorized_request pair_init spread_def hex_digit_def)
  from instance_init pair_init instance_sent [of "''A1''"] instance_sent [of "''A2''"]
    pairs_sent [of "''A1''"] pairs_sent [of "''A2''"]
    run_refresh_retry [of instance_headers] run_refresh_retry [of pair_headers]
  show ?thesis
    by simp
qed

text \<open>
  C10, amended. In every resource call of \<^verbatim>\<open>apiRequest\<close>, the primary call and the retry
  after a refresh alike, the headers are the two defaults (the JSON content type and the
  bearer token) overlaid with what the spread copies from the caller's headers.
  \<^item> When the caller's headers are a plain object, they are layered after the defaults:
    whatever header the object holds is sent with the caller's value, so an entry named
    \<^verbatim>\<open>Authorization\<close> or \<^verbatim>\<open>Content-Type\<close>, in that spelling, replaces the default.
  \<^item> When they are absent, a \<^verbatim>\<open>Headers\<close> instance or an array of pairs, both defaults are
    sent as they are.

  The primary call is made once on every stored record.
\<close>

theorem C10_plain_object_headers_win:
  assumes stored: "loadToken w = Some (TokenData_json t)"
    and run: "apiRequest e endpoint opts w = (res, w')"
  shows
    "calls PrimarySite (new_events w w') = 1
     \<and> (\<forall>r. Fetch PrimarySite r \<in> set (new_events w w')
             \<or> Fetch RetrySite r \<in> set (new_events w w')
          \<longrightarrow> (\<exists>tok. headers r
                      = [''Content-Type'' \<mapsto> ''application/json'',
                         ''Authorization'' \<mapsto> ''Bearer '' @ tok] ++ spread (opt_headers opts)
                    \<and> (\<forall>m. opt_headers opts = HeadersObject m \<longrightarrow>
                          headers r
                            = [''Content-Type'' \<mapsto> ''application/json'',
                               ''Authorization'' \<mapsto> ''Bearer '' @ tok] ++ m
                          \<and> (\<forall>k v. m k = Some v \<longrightarrow> headers r k = Some v)
                          \<and> (\<forall>v. m ''Authorization'' = Some v
                                 \<longrightarrow> headers r ''Authorization'' = Some v)
                          \<and> (\<forall>v. m ''Content-Type'' = Some v
                                 \<longrightarrow> headers r ''Content-Type'' = Some v))
                    \<and> ((\<forall>m. opt_headers opts \<noteq> HeadersObject m) \<longrightarrow>
                          headers r ''Authorization'' = Some (''Bearer '' @ tok)
                          \<and> headers r ''Content-Type'' = Some ''application/json'')))"
proof -
  obtain token w1 where pro: "proactive_refresh e t w = (token, w1)"
    by (cases "proactive_refresh e t w")
  note ev = apiRequest_new_events [OF stored pro refl run]
  have once: "calls PrimarySite (new_events w w') = 1"
    unfolding ev by (rule calls_primary_run)
  have shape: "\<exists>tok. r = authorized_request (getApiBaseUrl (VIBEKIT_API_URL e)) endpoint opts tok"
    if "Fetch PrimarySite r \<in> set (new_events w w')
        \<or> Fetch RetrySite r \<in> set (new_events w w')" for r
    using that unfolding ev
    by (auto split: api_reply.splits option.splits if_splits)
  have layered:
    "\<exists>tok. headers r
              = [''Content-Type'' \<mapsto> ''application/json'',
                 ''Authorization'' \<mapsto> ''Bearer '' @ tok] ++ spread (opt_headers opts)
            \<and> (\<forall>m. opt_headers opts = HeadersObject m \<longrightarrow>
                  headers r
                    = [''Content-Type'' \<mapsto> ''application/json'',
                       ''Authorization'' \<mapsto> ''Bearer '' @ tok] ++ m
                  \<and> (\<forall>k v. m k = Some v \<longrightarrow> headers r k = Some v)
                  \<and> (\<forall>v. m ''Authorization'' = Some v
                         \<longrightarrow> headers r ''Authorization'' = Some v)
                  \<and> (\<forall>v. m ''Content-Type'' = Some v
                         \<longrightarrow> headers r ''Content-Type'' = Some v))
            \<and> ((\<forall>m. opt_headers opts \<noteq> HeadersObject m) \<longrightarrow>
                  headers r ''Authorization'' = Some (''Bearer '' @ tok)
                  \<and> headers r ''Content-Type'' = Some ''application/json'')"
    if "Fetch PrimarySite r \<in> set (new_events w w')
        \<or> Fetch RetrySite r \<in> set (new_events w w')" for r
  proof -
    from shape [OF that] obtain tok
      where r: "r = authorized_request (getApiBaseUrl (VIBEKIT_API_URL e)) endpoint opts tok"
      by blast
    have sent: "headers r
        = [''Content-Type'' \<mapsto> ''application/json'',
           ''Authorization'' \<mapsto> ''Bearer '' @ tok] ++ spread (opt_headers opts)"
      unfolding r by (rule headers_authorized_request)
    have object: "headers r
        = [''Content-Type'' \<mapsto> ''application/json'',
           ''Authorization'' \<mapsto> ''Bearer '' @ tok] ++ m
        \<and> (\<forall>k v. m k = Some v \<longrightarrow> headers r k = Some v)
        \<and> (\<forall>v. m ''Authorization'' = Some v \<longrightarrow> headers r ''Authorization'' = Some v)
        \<and> (\<forall>v. m ''Content-Type'' = Some v \<longrightarrow> headers r ''Content-Type'' = Some v)"
      if "opt_headers opts = HeadersObject m" for m
      unfolding sent using that by (simp add: spread_def map_add_def)
    have other: "headers r ''Authorization'' = Some (''Bearer '' @ tok)
        \<and> headers r ''Content-Type'' = Some ''application/json''"
      if "\<forall>m. opt_headers opts \<noteq> HeadersObject m"
      unfolding r Authorization_authorized_request Content_Type_authorized_request
      using that by (simp split: headers_init.split)
    from sent object other show ?thesis
      by blast
  qed
  from once layered show ?thesis
    by blast
qed

theorem C10_plain_object_headers_win_witness:
  "Fetch PrimarySite (authorized_request ''https://api.example.test'' ''/x'' own_headers ''A1'')
     \<in> set (new_events (stored stored_record)
          (snd (apiRequest (scenario expires_in_1h refresh_grants resource_401_once) ''/x''
                  own_headers (stored stored_record))))
   \<and> Fetch RetrySite (authorized_request ''https://api.example.test'' ''/x'' own_headers ''A2'')
     \<in> set (new_events (stored stored_record)
          (snd (apiRequest (scenario expires_in_1h refresh_grants resource_401_once) ''/x''
                  own_headers (stored stored_record))))
   \<and> opt_headers own_headers
     = HeadersObject [''Authorization'' \<mapsto> ''Basic abc'', ''Content-Type'' \<mapsto> ''text/plain'']
   \<and> headers (authorized_request ''https://api.example.test'' ''/x'' own_headers ''A1'')
        ''Authorization'' = Some ''Basic abc''
   \<and> headers (authorized_request ''https://api.example.test'' ''/x'' own_headers ''A1'')
        ''Content-Type'' = Some ''text/plain''
   \<and> headers (authorized_request ''https://api.example.test'' ''/x'' own_headers ''A2'')
        ''Authorization'' = Some ''Basic abc''
   \<and> headers (authorized_request ''https://api.example.test'' ''/x'' own_headers ''A2'')
        ''Content-Type'' = Some ''text/plain''
   \<and> Fetch RetrySite (authorized_request ''https://api.example.test'' ''/x'' pair_headers ''A2'')
     \<in> set (new_events (stored stored_record)
          (snd (apiRequest (scenario expires_in_1h refresh_grants resource_401_once) ''/x''
                  pair_headers (stored stored_record))))
   \<and> (\<forall>m. opt_headers pair_headers \<noteq> HeadersObject m)
   \<and> (\<exists>tok. headers (authorized_request ''https://api.example.test'' ''/x'' pair_headers ''A2'')
               ''Authorization'' = Some (''Bearer '' @ tok))
   \<and> headers (authorized_request ''https://api.example.test'' ''/x'' pair_headers ''A2'')
        ''Content-Type'' = Some ''application/json''"
proof -
  let ?e = "scenario expires_in_1h refresh_grants resource_401_once"
  let ?P = "authorized_request ''https://api.example.test'' ''/x'' own_headers ''A1''"
  let ?R = "authorized_request ''https://api.example.test'' ''/x'' own_headers ''A2''"
  let ?R' = "authorized_request ''https://api.example.test'' ''/x'' pair_headers ''A2''"
  have object: "opt_headers own_headers
      = HeadersObject [''Authorization'' \<mapsto> ''Basic abc'', ''Content-Type'' \<mapsto> ''text/plain'']"
    by (simp add: own_headers_def)
  have pairs: "\<forall>m. opt_headers pair_headers \<noteq> HeadersObject m"
    by (simp add: pair_headers_def)
  have own: "(\<forall>v. [''Authorization'' \<mapsto> ''Basic abc'', ''Content-Type'' \<mapsto> ''text/plain'']
                     ''Authorization'' = Some v \<longrightarrow> headers r ''Authorization'' = Some v)
      \<and> (\<forall>v. [''Authorization'' \<mapsto> ''Basic abc'', ''Content-Type'' \<mapsto> ''text/plain'']
                     ''Content-Type'' = Some v \<longrightarrow> headers r ''Content-Type'' = Some v)"
    if "Fetch PrimarySite r \<in> set (new_events (stored stored_record)
          (snd (apiRequest ?e ''/x'' own_headers (stored stored_record))))
        \<or> Fetch RetrySite r \<in> set (new_events (stored stored_record)
          (snd (apiRequest ?e ''/x'' own_headers (stored stored_record))))" for r
    using that object
      C10_plain_object_headers_win [OF loadToken_stored prod.collapse [symmetric],
        where e = ?e and endpoint = "''/x''" and opts = own_headers and t = stored_record]
    by blast
  have other: "(\<exists>tok. headers r ''Authorization'' = Some (''Bearer '' @ tok))
      \<and> headers r ''Content-Type'' = Some ''application/json''"
    if "Fetch PrimarySite r \<in> set (new_events (stored stored_record)
          (snd (apiRequest ?e ''/x'' pair_headers (stored stored_record))))
        \<or> Fetch RetrySite r \<in> set (new_events (stored stored_record)
          (snd (apiRequest ?e ''/x'' pair_headers (stored stored_record))))" for r
    using that pairs
      C10_plain_object_headers_win [OF loadToken_stored prod.collapse [symmetric],
        where e = ?e and endpoint = "''/x''" and opts = pair_headers and t = stored_record]
    by blast
  have in_own: "Fetch PrimarySite ?P \<in> set (new_events (stored stored_record)
          (snd (apiRequest ?e ''/x'' own_headers (stored stored_record))))
      \<and> Fetch RetrySite ?R \<in> set (new_events (stored stored_record)
          (snd (apiRequest ?e ''/x'' own_headers (stored stored_record))))"
    unfolding run_refresh_retry by simp
  have in_pairs: "Fetch RetrySite ?R' \<in> set (new_events (stored stored_record)
          (snd (apiRequest ?e ''/x'' pair_headers (stored stored_record))))"
    unfolding run_refresh_retry by simp
  from in_own in_pairs object pairs own [of ?P] own [of ?R] other [of ?R'] show ?thesis
    by simp
qed

text \<open>
  The two end-to-end scenarios. The stored record expired 10 seconds ago and the refresh
  endpoint grants \<^verbatim>\<open>A2\<close> for an hour: the call succeeds with \<^verbatim>\<open>{"ok": true}\<close> and the store
  holds \<^verbatim>\<open>A2\<close> with the refresh token and the user it had. The refresh endpoint always
  answers 400 and the resource endpoint 401: the call fails with the "authentication
  expired" error and the file is the one from before the call.
\<close>

lemma scenario_refresh_then_success:
  "fst (apiRequest (scenario expired_10s_ago refresh_grants resource_ok) ''/x'' no_options
          (stored stored_record)) = Inr (JObj [(''ok'', JBool True)])
   \<and> loadToken (snd (apiRequest (scenario expired_10s_ago refresh_grants resource_ok) ''/x''
          no_options (stored stored_record))) = Some (TokenData_json refreshed_record)
   \<and> refresh_token refreshed_record = refresh_token stored_record
   \<and> user refreshed_record = user stored_record"
  by (simp add: loadToken_stored as_TokenData_json apiRequest_def proactive_refresh_def
        near_expiry_def fetch_resource_def refreshAccessToken_def toISOString_def
        scenario_def resource_ok_def ok_true_def refresh_grants_def granted_def
        stored_record_fields expired_10s_ago_def ok_def Let_def settle_def
        loadToken_text token_file_saveToken refreshed_record_def)

lemma scenario_refresh_always_fails:
  "fst (apiRequest (scenario expired_10s_ago refresh_400 resource_401) ''/x'' no_options
          (stored stored_record)) = Inl (Error authentication_expired)
   \<and> token_file (snd (apiRequest (scenario expired_10s_ago refresh_400 resource_401) ''/x''
          no_options (stored stored_record))) = token_file (stored stored_record)
   \<and> calls RefreshSite (new_events (stored stored_record)
          (snd (apiRequest (scenario expired_10s_ago refresh_400 resource_401) ''/x''
             no_options (stored stored_record)))) = 2"
  by (simp add: loadToken_stored as_TokenData_json apiRequest_def proactive_refresh_def
        near_expiry_def fetch_resource_def refreshAccessToken_def
        scenario_def resource_401_def refresh_400_def
        stored_record_fields expired_10s_ago_def ok_def Let_def
        new_events_def calls_def at_site_def)

section \<open>The device authorization flow\<close>

lemma poll_once_store:
  "token_file (snd (poll_once e deviceCode interval w)) = token_file w
   \<and> config_dir (snd (poll_once e deviceCode interval w)) = config_dir w"
  by (simp add: poll_once_def Let_def split: prod.split)

lemma poll_once_decides:
  "fst (poll_once e deviceCode interval w)
     = fst (decide interval
              (device_token_endpoint e (history w @ [Sleep (interval * 1000)])
                 (token_request e deviceCode)))"
  by (simp add: poll_once_def Let_def split: prod.split)

text \<open>The poll loop writes nothing, however many turns it takes.\<close>

lemma pollForToken_store_aux:
  assumes "pollForToken e deviceCode interval w = Some y"
  shows "token_file (snd y) = token_file w \<and> config_dir (snd y) = config_dir w"
  using assms
proof (induction rule: pollForToken.raw_induct [rotated 1, consumes 1])
  case (1 poll e deviceCode interval w y)
  obtain step w1 where p: "poll_once e deviceCode interval w = (step, w1)"
    by (cases "poll_once e deviceCode interval w")
  with poll_once_store [of e deviceCode interval w]
  have same: "token_file w1 = token_file w \<and> config_dir w1 = config_dir w"
    by simp
  show ?case
  proof (cases step)
    case (Return data)
    with 1(2) p same show ?thesis by auto
  next
    case (Continue i)
    with 1(2) p have "poll e deviceCode i w1 = Some y"
      by simp
    from 1(1) [OF this] same show ?thesis by simp
  next
    case (Throw err)
    with 1(2) p same show ?thesis by auto
  qed
qed

lemma pollForToken_store:
  assumes "pollForToken e deviceCode interval w = Some (res, w')"
  shows "token_file w' = token_file w \<and> config_dir w' = config_dir w"
  using pollForToken_store_aux [OF assms] by simp

lemma requestDeviceCode_store:
  "token_file (snd (requestDeviceCode e w)) = token_file w"
  by (simp add: requestDeviceCode_def Let_def
      split: device_code_reply.split device_code_body.split option.split)

lemma login_saveToken_error:
  "login_saveToken e token w = (Some err, w') \<Longrightarrow> token_file w' = token_file w"
  by (auto simp: login_saveToken_def Let_def split: option.splits if_splits)

lemma main_error_store:
  assumes "main e w = Some (Inl err, w')"
  shows "token_file w' = token_file w"
proof -
  obtain r w1 where rq: "requestDeviceCode e w = (r, w1)"
    by (cases "requestDeviceCode e w")
  with requestDeviceCode_store [of e w] have w1: "token_file w1 = token_file w"
    by simp
  show ?thesis
  proof (cases r)
    case (Inl a)
    with assms rq w1 show ?thesis
      by (simp add: main_def)
  next
    case (Inr d)
    show ?thesis
    proof (cases "pollForToken e (device_code d) (code_interval d) w1")
      case None
      with assms rq Inr show ?thesis
        by (simp add: main_def)
    next
      case (Some out)
      obtain p w2 where out: "out = (p, w2)"
        by (cases out)
      from pollForToken_store [of e "device_code d" "code_interval d" w1 p w2] Some out w1
      have w2: "token_file w2 = token_file w"
        by simp
      show ?thesis
      proof (cases p)
        case (Inl a)
        with assms rq Inr Some out w2 show ?thesis
          by (simp add: main_def)
      next
        case (Inr token)
        obtain s w3 where sv: "login_saveToken e token w2 = (s, w3)"
          by (cases "login_saveToken e token w2")
        with assms rq \<open>r = Inr d\<close> Some out Inr w2 login_saveToken_error [of e token w2 _ w3]
        show ?thesis
          by (cases s) (simp_all add: main_def)
      qed
    qed
  qed
qed

lemma pollForToken_unfold:
  "pollForToken e deviceCode interval w =
     (case fst (poll_once e deviceCode interval w) of
        Return data \<Rightarrow> Some (Inr data, snd (poll_once e deviceCode interval w))
      | Continue interval' \<Rightarrow>
          pollForToken e deviceCode interval' (snd (poll_once e deviceCode interval w))
      | Throw err \<Rightarrow> Some (Inl err, snd (poll_once e deviceCode interval w)))"
  by (subst pollForToken.simps) (simp split: prod.split poll_next.split)

text \<open>
  C5. Take one turn of the poll loop in world \<open>w\<close> at interval \<open>interval\<close>: \<open>reply\<close> is what
  the token endpoint answers after the sleep and \<open>w1\<close> the world after the turn.
  \<^item> A payload with an access token: the loop returns that payload.
  \<^item> \<^verbatim>\<open>authorization_pending\<close>: the loop goes on from \<open>w1\<close> at the same interval.
  \<^item> \<^verbatim>\<open>slow_down\<close>: the loop goes on from \<open>w1\<close> at the interval plus 5.
  \<^item> \<^verbatim>\<open>expired_token\<close>: the loop throws "Authorization timed out. Please try again.".
  \<^item> Any other error code: the loop throws the server's \<open>error_description\<close> when there
    is one, else the error code. As in JavaScript's \<^verbatim>\<open>||\<close>, a description or a code that
    is the empty string counts as not there; with neither, the message is
    "Authentication failed".
  The turn leaves the token file as it was, and whenever \<^verbatim>\<open>main\<close> ends in an error the
  token file is the one it started with: no credential record is written.
\<close>

theorem C5_poll_iteration:
  assumes reply: "reply = device_token_endpoint e (history w @ [Sleep (interval * 1000)])
                            (token_request e deviceCode)"
    and w1: "w1 = snd (poll_once e deviceCode interval w)"
  shows
    "(\<forall>data. reply = TokenReply (Granted data)
        \<longrightarrow> pollForToken e deviceCode interval w = Some (Inr data, w1))
     \<and> (\<forall>d. reply = TokenReply (Refused d) \<and> error d = Some ''authorization_pending''
        \<longrightarrow> pollForToken e deviceCode interval w = pollForToken e deviceCode interval w1)
     \<and> (\<forall>d. reply = TokenReply (Refused d) \<and> error d = Some ''slow_down''
        \<longrightarrow> pollForToken e deviceCode interval w = pollForToken e deviceCode (interval + 5) w1)
     \<and> (\<forall>d. reply = TokenReply (Refused d) \<and> error d = Some ''expired_token''
        \<longrightarrow> pollForToken e deviceCode interval w
              = Some (Inl (Error ''Authorization timed out. Please try again.''), w1))
     \<and> (\<forall>d code description.
          reply = TokenReply (Refused d) \<and> error d = Some code
          \<and> code \<noteq> ''authorization_pending'' \<and> code \<noteq> ''slow_down''
          \<and> code \<noteq> ''expired_token''
          \<and> error_description d = Some description \<and> description \<noteq> []
        \<longrightarrow> pollForToken e deviceCode interval w = Some (Inl (Error description), w1))
     \<and> (\<forall>d code.
          reply = TokenReply (Refused d) \<and> error d = Some code \<and> code \<noteq> []
          \<and> code \<noteq> ''authorization_pending'' \<and> code \<noteq> ''slow_down''
          \<and> code \<noteq> ''expired_token''
          \<and> (error_description d = None \<or> error_description d = Some [])
        \<longrightarrow> pollForToken e deviceCode interval w = Some (Inl (Error code), w1))
     \<and> (\<forall>d. reply = TokenReply (Refused d)
          \<and> (error d = None \<or> error d = Some [])
          \<and> (error_description d = None \<or> error_description d = Some [])
        \<longrightarrow> pollForToken e deviceCode interval w
              = Some (Inl (Error ''Authentication failed''), w1))
     \<and> token_file w1 = token_file w
     \<and> (\<forall>w0 err w'. main e w0 = Some (Inl err, w') \<longrightarrow> token_file w' = token_file w0)"
proof -
  have turn: "fst (poll_once e deviceCode interval w) = fst (decide interval reply)"
    unfolding reply by (rule poll_once_decides)
  have granted: "pollForToken e deviceCode interval w = Some (Inr data, w1)"
    if "reply = TokenReply (Granted data)" for data
    using that by (subst pollForToken_unfold) (simp add: turn w1 decide_def)
  have pending: "pollForToken e deviceCode interval w = pollForToken e deviceCode interval w1"
    if "reply = TokenReply (Refused d)" "error d = Some ''authorization_pending''" for d
    using that by (subst pollForToken_unfold) (simp add: turn w1 decide_def)
  have slow: "pollForToken e deviceCode interval w = pollForToken e deviceCode (interval + 5) w1"
    if "reply = TokenReply (Refused d)" "error d = Some ''slow_down''" for d
    using that by (subst pollForToken_unfold) (simp add: turn w1 decide_def)
  have expired: "pollForToken e deviceCode interval w
      = Some (Inl (Error ''Authorization timed out. Please try again.''), w1)"
    if "reply = TokenReply (Refused d)" "error d = Some ''expired_token''" for d
    using that by (subst pollForToken_unfold) (simp add: turn w1 decide_def)
  have described: "pollForToken e deviceCode interval w = Some (Inl (Error description), w1)"
    if "reply = TokenReply (Refused d)" "error d = Some code"
      "code \<noteq> ''authorization_pending''" "code \<noteq> ''slow_down''" "code \<noteq> ''expired_token''"
      "error_description d = Some description" "description \<noteq> []"
    for d code description
    using that
    by (subst pollForToken_unfold)
      (simp add: turn w1 decide_def failure_message_def or_else_def)
  have coded: "pollForToken e deviceCode interval w = Some (Inl (Error code), w1)"
    if "reply = TokenReply (Refused d)" "error d = Some code" "code \<noteq> []"
      "code \<noteq> ''authorization_pending''" "code \<noteq> ''slow_down''" "code \<noteq> ''expired_token''"
      "error_description d = None \<or> error_description d = Some []"
    for d code
    using that
    by (subst pollForToken_unfold)
      (auto simp: turn w1 decide_def failure_message_def or_else_def)
  have nameless: "pollForToken e deviceCode interval w
      = Some (Inl (Error ''Authentication failed''), w1)"
    if "reply = TokenReply (Refused d)" "error d = None \<or> error d = Some []"
      "error_description d = None \<or> error_description d = Some []"
    for d
    using that
    by (subst pollForToken_unfold)
      (auto simp: turn w1 decide_def failure_message_def or_else_def)
  have store: "token_file w1 = token_file w"
    unfolding w1 using poll_once_store [of e deviceCode interval w] by simp
  have final: "token_file w' = token_file w0" if "main e w0 = Some (Inl err, w')" for w0 err w'
    using that by (rule main_error_store)
  from granted pending slow expired described coded nameless store final show ?thesis
    by blast
qed

lemma polls_after_turn:
  "calls DeviceTokenSite (history (snd (poll_once e deviceCode interval w)))
     = Suc (calls DeviceTokenSite (history w))"
  by (simp add: poll_once_def decide_def Let_def calls_def at_site_def
      split: prod.split token_reply.split token_body.split)

lemma polls_before_fetch:
  "calls DeviceTokenSite (h @ [Sleep ms]) = calls DeviceTokenSite h"
  by (simp add: calls_def at_site_def)

lemma calls_Nil [simp]: "calls s [] = 0"
  by (simp add: calls_def)

lemma calls_Sleep [simp]: "calls s (Sleep ms # h) = calls s h"
  by (simp add: calls_def at_site_def)

lemma disk_fields [simp]:
  "history (disk f) = []" "token_file (disk f) = f" "config_dir (disk f)"
  by (simp_all add: disk_def)

lemma device_flow_fields [simp]:
  "device_token_endpoint (device_flow script) h req = script h"
  "device_code_endpoint (device_flow script) h req = DeviceCodeReply 200 (CodeGranted device_grant)"
  by (simp_all add: device_flow_def scenario_def)

theorem C5_poll_iteration_witness:
  "pollForToken (device_flow approved) ''D1'' 5 (disk None)
     = Some (Inr payload, snd (poll_once (device_flow approved) ''D1'' 5 (disk None)))
   \<and> pollForToken (device_flow pending_twice) ''D1'' 5 (disk None)
     = Some (Inr payload,
         snd (poll_once (device_flow pending_twice) ''D1'' 5
           (snd (poll_once (device_flow pending_twice) ''D1'' 5
             (snd (poll_once (device_flow pending_twice) ''D1'' 5 (disk None)))))))
   \<and> pollForToken (device_flow slow_down_once) ''D1'' 5 (disk None)
     = Some (Inr payload,
         snd (poll_once (device_flow slow_down_once) ''D1'' 10
           (snd (poll_once (device_flow slow_down_once) ''D1'' 5 (disk None)))))
   \<and> pollForToken (device_flow code_expired) ''D1'' 5 (disk None)
     = Some (Inl (Error ''Authorization timed out. Please try again.''),
         snd (poll_once (device_flow code_expired) ''D1'' 5 (disk None)))
   \<and> pollForToken (device_flow (denied (Some ''The user said no''))) ''D1'' 5 (disk None)
     = Some (Inl (Error ''The user said no''),
         snd (poll_once (device_flow (denied (Some ''The user said no''))) ''D1'' 5 (disk None)))
   \<and> pollForToken (device_flow (denied None)) ''D1'' 5 (disk None)
     = Some (Inl (Error ''access_denied''),
         snd (poll_once (device_flow (denied None)) ''D1'' 5 (disk None)))
   \<and> map_option fst (main (device_flow code_expired) (disk None))
     = Some (Inl (Error ''Authorization timed out. Please try again.''))
   \<and> map_option (\<lambda>out. token_file (snd out)) (main (device_flow code_expired) (disk None))
     = Some None"
proof -
  let ?w1 = "\<lambda>e i w. snd (poll_once e ''D1'' i w)"
  note turn = C5_poll_iteration [OF refl refl, where deviceCode = "''D1''"]
  have a: "pollForToken (device_flow approved) ''D1'' 5 (disk None)
      = Some (Inr payload, ?w1 (device_flow approved) 5 (disk None))"
    using turn [of "device_flow approved" "disk None" 5]
    by (simp add: approved_def)
  let ?p = "device_flow pending_twice"
  have p1: "pollForToken ?p ''D1'' 5 (disk None) = pollForToken ?p ''D1'' 5 (?w1 ?p 5 (disk None))"
    using turn [of ?p "disk None" 5]
    by (simp add: pending_twice_def refusal_def polls_before_fetch)
  have p2: "pollForToken ?p ''D1'' 5 (?w1 ?p 5 (disk None))
      = pollForToken ?p ''D1'' 5 (?w1 ?p 5 (?w1 ?p 5 (disk None)))"
    using turn [of ?p "?w1 ?p 5 (disk None)" 5]
    by (simp add: pending_twice_def refusal_def polls_before_fetch polls_after_turn)
  have p3: "pollForToken ?p ''D1'' 5 (?w1 ?p 5 (?w1 ?p 5 (disk None)))
      = Some (Inr payload, ?w1 ?p 5 (?w1 ?p 5 (?w1 ?p 5 (disk None))))"
    using turn [of ?p "?w1 ?p 5 (?w1 ?p 5 (disk None))" 5]
    by (simp add: pending_twice_def refusal_def polls_before_fetch polls_after_turn)
  let ?s = "device_flow slow_down_once"
  have s1: "pollForToken ?s ''D1'' 5 (disk None) = pollForToken ?s ''D1'' 10 (?w1 ?s 5 (disk None))"
    using turn [of ?s "disk None" 5]
    by (simp add: slow_down_once_def refusal_def polls_before_fetch)
  have s2: "pollForToken ?s ''D1'' 10 (?w1 ?s 5 (disk None))
      = Some (Inr payload, ?w1 ?s 10 (?w1 ?s 5 (disk None)))"
    using turn [of ?s "?w1 ?s 5 (disk None)" 10]
    by (simp add: slow_down_once_def refusal_def polls_before_fetch polls_after_turn)
  let ?x = "device_flow code_expired"
  have x: "pollForToken ?x ''D1'' 5 w
      = Some (Inl (Error ''Authorization timed out. Please try again.''), ?w1 ?x 5 w)" for w
    using turn [of ?x w 5]
    by (simp add: code_expired_def refusal_def)
  have d1: "pollForToken (device_flow (denied (Some ''The user said no''))) ''D1'' 5 (disk None)
      = Some (Inl (Error ''The user said no''),
          ?w1 (device_flow (denied (Some ''The user said no''))) 5 (disk None))"
    using turn [of "device_flow (denied (Some ''The user said no''))" "disk None" 5]
    by (simp add: denied_def refusal_def)
  have d2: "pollForToken (device_flow (denied None)) ''D1'' 5 (disk None)
      = Some (Inl (Error ''access_denied''), ?w1 (device_flow (denied None)) 5 (disk None))"
    using turn [of "device_flow (denied None)" "disk None" 5]
    by (simp add: denied_def refusal_def)
  have m: "main ?x (disk None)
      = Some (Inl (Error ''Authorization timed out. Please try again.''),
          ?w1 ?x 5 (snd (requestDeviceCode ?x (disk None))))"
    by (simp add: main_def requestDeviceCode_def ok_def Let_def device_grant_def x)
  have store: "token_file (?w1 ?x 5 (snd (requestDeviceCode ?x (disk None)))) = None"
    using turn [of ?x "snd (requestDeviceCode ?x (disk None))" 5]
      requestDeviceCode_store [of ?x "disk None"]
    by simp
  from a p1 p2 p3 s1 s2 x [of "disk None"] d1 d2 m store show ?thesis
    by simp
qed

end
